theory Spec2Isabelle
  imports Main "HOL-Library.Word"
begin

section \<open>JavaScript values\<close>

text \<open>
  The handlers move dynamically typed values around: the template data of a request, the
  parsed body of the completion response, the payload handed to \<^verbatim>\<open>JSON.stringify\<close>.
  \<open>js_value\<close> has the values \<^verbatim>\<open>JSON.parse\<close> can produce, \<^verbatim>\<open>undefined\<close>
  (the request transformer can carry it, and a missing property reads as it), and the two
  kinds of value a plain object inherits from \<^verbatim>\<open>Object.prototype\<close>: a built-in
  function (given by its name) and the prototype object itself. The other values that
  the transformer can carry (dates, big integers, maps, sets) are outside the model.

  An object is the list of its own enumerable properties in the order
  \<^verbatim>\<open>Object.entries\<close> lists them. Numbers are the integral ones (a \<open>JNum n\<close> stands for
  the Number \<open>n\<close>, below \<open>10^21\<close> in size, where \<^verbatim>\<open>String\<close> prints plain decimal
  digits); fractional numbers are outside the model. Strings are lists of \<open>char\<close>; the
  patterns below only look at ASCII characters.
\<close>

datatype js_value =
    JUndefined
  | JNull
  | JBool bool
  | JNum int
  | JStr string
  | JArr "js_value list"
  | JObj "(string \<times> js_value) list"
  | JFunction string
  | JObjectPrototype

type_synonym js_object = "(string \<times> js_value) list"

text \<open>
  A thrown value: an \<^verbatim>\<open>Error\<close> (of any subclass) with its message, or anything else.
  The message of a \<^verbatim>\<open>TypeError\<close> that the engine raises is the engine's own text; the
  model writes \<open>TypeError\<close> for it.
\<close>

datatype thrown = JsError string | NonError

definition nullish :: "js_value \<Rightarrow> bool" where
  "nullish v = (v = JUndefined \<or> v = JNull)"

text \<open>The results of a list of steps: the first thrown value in their order, else all values.\<close>

fun collect :: "(thrown + 'a) list \<Rightarrow> thrown + 'a list" where
  "collect [] = Inr []"
| "collect (r # rs) =
     (case r of
        Inl err \<Rightarrow> Inl err
      | Inr v \<Rightarrow> (case collect rs of Inl err \<Rightarrow> Inl err | Inr vs \<Rightarrow> Inr (v # vs)))"

subsection \<open>\<^verbatim>\<open>String(value)\<close>\<close>

definition digit_char :: "nat \<Rightarrow> char" where
  "digit_char d = ''0123456789'' ! d"

fun show_nat :: "nat \<Rightarrow> string" where
  "show_nat n =
     (if n < 10 then [digit_char n] else show_nat (n div 10) @ [digit_char (n mod 10)])"

declare show_nat.simps [simp del]

definition show_int :: "int \<Rightarrow> string" where
  "show_int i = (if i < 0 then CHR ''-'' # show_nat (nat (- i)) else show_nat (nat i))"

text \<open>\<^verbatim>\<open>Array.prototype.join\<close>, which \<^verbatim>\<open>String\<close> of an array calls with a comma.\<close>

fun join :: "string \<Rightarrow> string list \<Rightarrow> string" where
  "join sep [] = []"
| "join sep [x] = x"
| "join sep (x # y # ys) = x @ sep @ join sep (y # ys)"

text \<open>
  \<^verbatim>\<open>String(v)\<close>, which can throw. An array joins the strings of its elements in
  their order, \<^verbatim>\<open>null\<close> and \<^verbatim>\<open>undefined\<close> elements printing as nothing. An object
  is converted by its \<^verbatim>\<open>toString\<close> method: a plain object inherits the one that
  prints \<^verbatim>\<open>[object Object]\<close>; an object with an own property \<open>toString\<close> (which
  in parsed data is never a function) has no method left that returns a primitive, and the
  conversion throws a \<^verbatim>\<open>TypeError\<close>. The text of a built-in function has the form
  \<^verbatim>\<open>function NAME() { [native code] }\<close>, with white space that the engine chooses.
\<close>

fun js_String :: "js_value \<Rightarrow> thrown + string" where
  "js_String JUndefined = Inr ''undefined''"
| "js_String JNull = Inr ''null''"
| "js_String (JBool b) = Inr (if b then ''true'' else ''false'')"
| "js_String (JNum n) = Inr (show_int n)"
| "js_String (JStr s) = Inr s"
| "js_String (JArr xs) =
     map_sum id (join '','')
       (collect (map (\<lambda>x. if x = JUndefined \<or> x = JNull then Inr [] else js_String x) xs))"
| "js_String (JObj kvs) =
     (if ''toString'' \<in> set (map fst kvs) then Inl (JsError ''TypeError'')
      else Inr ''[object Object]'')"
| "js_String (JFunction f) = Inr (''function '' @ f @ ''() { [native code] }'')"
| "js_String JObjectPrototype = Inr ''[object Object]''"

text \<open>Truthiness, as \<^verbatim>\<open>if (v)\<close>, \<^verbatim>\<open>v || d\<close> and \<^verbatim>\<open>v && d\<close> test it.\<close>

fun truthy :: "js_value \<Rightarrow> bool" where
  "truthy JUndefined = False"
| "truthy JNull = False"
| "truthy (JBool b) = b"
| "truthy (JNum n) = (n \<noteq> 0)"
| "truthy (JStr s) = (s \<noteq> [])"
| "truthy _ = True"

subsection \<open>Reading a property\<close>

text \<open>
  What a plain object inherits from \<^verbatim>\<open>Object.prototype\<close> (ECMA-262, with the
  legacy accessors of its Annex B): an object literal and the object a \<^verbatim>\<open>z.record\<close>
  schema builds both have this prototype. \<^verbatim>\<open>__proto__\<close> reads as the prototype object.
\<close>

definition Object_prototype :: "string \<Rightarrow> js_value" where
  "Object_prototype key =
     (if key = ''constructor'' then JFunction ''Object''
      else if key \<in> set [''hasOwnProperty'', ''isPrototypeOf'', ''propertyIsEnumerable'',
                          ''toLocaleString'', ''toString'', ''valueOf'',
                          ''__defineGetter__'', ''__defineSetter__'',
                          ''__lookupGetter__'', ''__lookupSetter__'']
      then JFunction key
      else if key = ''__proto__'' then JObjectPrototype
      else JUndefined)"

text \<open>\<^verbatim>\<open>obj[key]\<close> on a plain object: the own property, else the inherited one, else \<^verbatim>\<open>undefined\<close>.\<close>

definition object_get :: "js_object \<Rightarrow> string \<Rightarrow> js_value" where
  "object_get obj key =
     (case map_of obj key of Some v \<Rightarrow> v | None \<Rightarrow> Object_prototype key)"

section \<open>The template renderer of \<^verbatim>\<open>execute_prompt.ts\<close>\<close>

text \<open>The class \<^verbatim>\<open>\w\<close> of a regular expression without the \<^verbatim>\<open>u\<close> and \<^verbatim>\<open>i\<close> flags.\<close>

definition word_char :: "char \<Rightarrow> bool" where
  "word_char c =
     (c \<in> set ''abcdefghijklmnopqrstuvwxyzABCDEFGHIJKLMNOPQRSTUVWXYZ0123456789_'')"

text \<open>
  A match of \<^verbatim>\<open>/\{\{(\w+)\}\}/\<close> at the very start of \<open>s\<close>: the matched text, the
  captured key and what follows the match. The greedy \<^verbatim>\<open>\w+\<close> takes the longest run of
  word characters; giving some back never helps, since a closing brace is no word
  character.
\<close>

definition match_placeholder :: "string \<Rightarrow> (string \<times> string \<times> string) option" where
  "match_placeholder s =
     (let key = takeWhile word_char (drop 2 s);
          rest = dropWhile word_char (drop 2 s)
      in if take 2 s = ''{{'' \<and> key \<noteq> [] \<and> take 2 rest = ''}}''
         then Some (''{{'' @ key @ ''}}'', key, drop 2 rest)
         else None)"

lemma match_placeholder_shorter:
  "match_placeholder s = Some (m, key, rest) \<Longrightarrow> length rest < length s"
proof -
  assume a: "match_placeholder s = Some (m, key, rest)"
  have "length (dropWhile word_char (drop 2 s)) \<le> length (drop 2 s)"
    by (rule length_dropWhile_le)
  moreover from a have "take 2 s = ''{{''" and "rest = drop 2 (dropWhile word_char (drop 2 s))"
    by (auto simp: match_placeholder_def Let_def split: if_splits)
  moreover from \<open>take 2 s = ''{{''\<close> have "2 \<le> length s"
    by (cases s; cases "tl s") auto
  ultimately show ?thesis by simp
qed

text \<open>
  \<^verbatim>\<open>template.replace(/\{\{(\w+)\}\}/g, f)\<close> with a replacer function \<open>f\<close> of the match
  and its capture: one pass from left to right, each match replaced by what \<open>f\<close> returns
  (taken literally), the search going on after the match. The replacer is called match by
  match, and what it throws ends the call.
\<close>

function replace_placeholders ::
  "(string \<Rightarrow> string \<Rightarrow> thrown + string) \<Rightarrow> string \<Rightarrow> thrown + string" where
  "replace_placeholders f [] = Inr []"
| "replace_placeholders f (c # s) =
     (case match_placeholder (c # s) of
        Some (m, key, rest) \<Rightarrow>
          (case f m key of
             Inl err \<Rightarrow> Inl err
           | Inr t \<Rightarrow> map_sum id ((@) t) (replace_placeholders f rest))
      | None \<Rightarrow> map_sum id ((#) c) (replace_placeholders f s))"
  by pat_completeness auto
termination
  by (relation "measure (\<lambda>(f, s). length s)") (auto dest: match_placeholder_shorter)

text \<open>
  \<^verbatim>\<open>renderTemplate(template, data = {})\<close>, lines 8 to 12. \<open>None\<close> is the absent
  argument, which the default parameter turns into the empty object.
\<close>

definition renderTemplate :: "string \<Rightarrow> js_object option \<Rightarrow> thrown + string" where
  "renderTemplate template data =
     (let d = (case data of None \<Rightarrow> [] | Some obj \<Rightarrow> obj)
      in replace_placeholders
           (\<lambda>match key. if object_get d key \<noteq> JUndefined
                         then js_String (object_get d key) else Inr match)
           template)"

subsection \<open>A template as a sequence of tokens\<close>

text \<open>
  The same scan, kept as data: a template is cut into its placeholders (the matches of
  the pattern, each with its key) and the single characters between them. Rendering
  a token with a replacer \<open>f\<close> leaves a character alone and calls \<open>f\<close> on a
  placeholder; the properties below state \<^verbatim>\<open>renderTemplate\<close> occurrence by occurrence
  through these two functions.
\<close>

datatype token = Text char | Placeholder string

function tokenize :: "string \<Rightarrow> token list" where
  "tokenize [] = []"
| "tokenize (c # s) =
     (case match_placeholder (c # s) of
        Some (m, key, rest) \<Rightarrow> Placeholder key # tokenize rest
      | None \<Rightarrow> Text c # tokenize s)"
  by pat_completeness auto
termination
  by (relation "measure length") (auto dest: match_placeholder_shorter)

fun render_token :: "(string \<Rightarrow> string \<Rightarrow> thrown + string) \<Rightarrow> token \<Rightarrow> thrown + string" where
  "render_token f (Text c) = Inr [c]"
| "render_token f (Placeholder key) = f (''{{'' @ key @ ''}}'') key"

section \<open>The template renderer of \<^verbatim>\<open>webhook_execution.ts\<close>\<close>

text \<open>
  Lines 26 to 30 render in another way: for each entry of the payload, in the order of
  \<^verbatim>\<open>Object.entries\<close>, the text so far is rewritten by
  \<^verbatim>\<open>text.replace(new RegExp(`{{${key}}}`, 'g'), String(value))\<close>. The pattern is
  built from the key, so the regular-expression engine is a parameter here: a function
  of the pattern source that returns what \<^verbatim>\<open>new RegExp\<close> throws on a source that is
  no pattern, or else the global replacement as a function of the replacement string and
  the subject. The arguments of \<^verbatim>\<open>replace\<close> are evaluated in their order, the
  pattern first and \<^verbatim>\<open>String(value)\<close> after it.
\<close>

type_synonym regexp_replace = "string \<Rightarrow> thrown + (string \<Rightarrow> string \<Rightarrow> string)"

fun render_payload :: "regexp_replace \<Rightarrow> string \<Rightarrow> js_object \<Rightarrow> thrown + string" where
  "render_payload R renderedPrompt [] = Inr renderedPrompt"
| "render_payload R renderedPrompt ((key, v) # entries) =
     (case R (''{{'' @ key @ ''}}'') of
        Inl err \<Rightarrow> Inl err
      | Inr replace_all \<Rightarrow>
          (case js_String v of
             Inl err \<Rightarrow> Inl err
           | Inr replacement \<Rightarrow>
               render_payload R (replace_all replacement renderedPrompt) entries))"

subsection \<open>The engine on the patterns that keys of word characters give\<close>

text \<open>
  For a key of word characters the source \<^verbatim>\<open>{{key}}\<close> is a pattern that matches one
  fixed text. A brace that opens no quantifier stands for itself, so a key with a
  character that is no digit matches the text \<^verbatim>\<open>{{key}}\<close>. A key of digits only
  makes \<^verbatim>\<open>{n}\<close> a quantifier of the first brace: the pattern matches \<open>n\<close> opening
  braces and one closing brace.
\<close>

definition all_digits :: "string \<Rightarrow> bool" where
  "all_digits s = (s \<noteq> [] \<and> list_all (\<lambda>c. c \<in> set ''0123456789'') s)"

definition digit_value :: "char \<Rightarrow> nat" where
  "digit_value c = length (takeWhile (\<lambda>d. d \<noteq> c) ''0123456789'')"

definition nat_of_digits :: "string \<Rightarrow> nat" where
  "nat_of_digits s = foldl (\<lambda>n c. 10 * n + digit_value c) 0 s"

definition placeholder_literal :: "string \<Rightarrow> string" where
  "placeholder_literal key =
     (if all_digits key then replicate (nat_of_digits key) CHR ''{'' @ ''}''
      else ''{{'' @ key @ ''}}'')"

text \<open>
  A replacement string is a template (\<^verbatim>\<open>GetSubstitution\<close> of ECMA-262): \<^verbatim>\<open>$$\<close> is a
  dollar sign, \<^verbatim>\<open>$&\<close> the matched text, \<^verbatim>\<open>$`\<close> the subject before the match and
  \<^verbatim>\<open>$'\<close> the subject after it. The patterns here have no capture groups, so every
  other dollar sign stands for itself.
\<close>

fun GetSubstitution :: "string \<Rightarrow> string \<Rightarrow> string \<Rightarrow> string \<Rightarrow> string" where
  "GetSubstitution matched preceding following (c # d # r) =
     (if c = CHR ''$'' \<and> d = CHR ''$'' then CHR ''$'' # GetSubstitution matched preceding following r
      else if c = CHR ''$'' \<and> d = CHR ''&'' then matched @ GetSubstitution matched preceding following r
      else if c = CHR ''$'' \<and> d = CHR ''`'' then preceding @ GetSubstitution matched preceding following r
      else if c = CHR ''$'' \<and> d = CHR 0x27 then following @ GetSubstitution matched preceding following r
      else c # GetSubstitution matched preceding following (d # r))"
| "GetSubstitution matched preceding following r = r"

text \<open>
  Every occurrence of the text \<open>lit\<close> replaced, from left to right; \<open>preceding\<close> is the
  part of the subject already passed.
\<close>

function replace_all_literal :: "string \<Rightarrow> string \<Rightarrow> string \<Rightarrow> string \<Rightarrow> string" where
  "replace_all_literal lit replacement preceding [] = []"
| "replace_all_literal lit replacement preceding (c # s) =
     (if lit \<noteq> [] \<and> take (length lit) (c # s) = lit
      then GetSubstitution lit preceding (drop (length lit) (c # s)) replacement
           @ replace_all_literal lit replacement (preceding @ lit) (drop (length lit) (c # s))
      else c # replace_all_literal lit replacement (preceding @ [c]) s)"
  by pat_completeness auto
termination
  by (relation "measure (\<lambda>(lit, replacement, preceding, s). length s)") auto

text \<open>
  The engine on these sources. On any other source the definition does not describe
  the engine: it answers with an error value, and nothing below evaluates it there.
\<close>

definition placeholder_regexp_replace :: regexp_replace where
  "placeholder_regexp_replace source =
     (let key = take (length source - 4) (drop 2 source)
      in if source = ''{{'' @ key @ ''}}'' \<and> list_all word_char key
         then Inr (\<lambda>replacement subject.
                     replace_all_literal (placeholder_literal key) replacement [] subject)
         else Inl (JsError ''a pattern outside the modelled fragment''))"

section \<open>The database and the network\<close>

text \<open>
  The rows of \<^verbatim>\<open>db/schema.ts\<close>. Field names are the column names; \<open>id\<close>,
  \<open>name\<close>, \<open>description\<close> and the time stamps of a prompt carry the suffix \<open>_p\<close>,
  and \<open>id\<close> of a history row the suffix \<open>_h\<close>. The key of a prompt is a
  \<^verbatim>\<open>serial\<close> column, a signed integer of 32 bits; \<open>sint\<close> reads it as the number
  the handlers compare with. The \<^verbatim>\<open>numeric\<close> columns hold decimal text, as the
  driver returns it. Time stamps are ticks of a clock.
\<close>

record prompt =
  id_p :: "32 word"
  name_p :: string
  description_p :: "string option"
  prompt_text :: string
  model :: string
  temperature :: string
  max_tokens :: "int option"
  top_p :: string
  frequency_penalty :: string
  presence_penalty :: string
  destination_webhook_url :: string
  cron_schedule :: "string option"
  is_active :: bool
  created_at_p :: nat
  updated_at_p :: nat

datatype trigger_type = cron | webhook

datatype execution_status = success | failed

record execution_history =
  id_h :: int
  prompt_id :: int
  trigger_type :: trigger_type
  input_data :: "js_object option"
  rendered_prompt :: string
  openai_response :: js_value
  webhook_response_status :: "nat option"
  webhook_response_body :: "string option"
  execution_status :: execution_status
  error_message :: "string option"
  created_at :: nat

text \<open>
  A request as \<^verbatim>\<open>fetch(url, {method, headers, body})\<close> gets it. The body is the value
  handed to \<^verbatim>\<open>JSON.stringify\<close>. The completion request has four numbers that
  \<^verbatim>\<open>parseFloat\<close> reads from decimal text; floating point is not modelled, so they are
  kept as the text under the constructor \<open>parseFloat\<close>. \<open>max_tokens_r\<close> is \<open>None\<close>
  when the request object has no such property and \<open>Some None\<close> when it is \<^verbatim>\<open>null\<close>.
\<close>

datatype js_float = parseFloat string

record chat_completion =
  model_r :: string
  messages :: "(string \<times> string) list"
  temperature_r :: js_float
  max_tokens_r :: "int option option"
  top_p_r :: js_float
  frequency_penalty_r :: js_float
  presence_penalty_r :: js_float

datatype request_body = JSON_stringify_chat chat_completion | JSON_stringify js_value

record request =
  url :: string
  http_method :: string
  headers :: "(string \<times> string) list"
  body :: request_body

text \<open>
  A response: its status, what \<^verbatim>\<open>await response.text()\<close> gives and what
  \<^verbatim>\<open>await response.json()\<close> gives (a body that is no JSON makes the latter throw).
  A handler reads one of the two. \<^verbatim>\<open>response.ok\<close> is a status from 200 to 299.
\<close>

record response =
  status :: nat
  body_text :: "thrown + string"
  body_json :: "thrown + js_value"

definition ok :: "response \<Rightarrow> bool" where
  "ok r = (200 \<le> status r \<and> status r \<le> 299)"

datatype fetch_outcome = Rejects thrown | Resolves response

text \<open>
  The state a handler runs in: the two tables, the sequence of the \<^verbatim>\<open>serial\<close> key of
  the history table, the clock behind \<^verbatim>\<open>defaultNow()\<close>, and the requests sent so
  far, oldest first.
\<close>

record world =
  promptsTable :: "prompt list"
  executionHistoryTable :: "execution_history list"
  next_id :: int
  clock :: nat
  fetched :: "request list"

text \<open>
  What a handler does not decide: the API key of the process environment (\<open>None\<close> when
  unset), the outcome of the call to the completion endpoint and of the call to the
  destination webhook, the regular-expression engine, and whether the database takes the
  new history row. A handler sends each of the two requests at most once, the completion
  request first, so every behaviour of the network is one choice of the two outcomes.
  It inserts at most one row, and \<open>db_insert\<close> is \<open>None\<close> when the database takes it
  and the error of the driver when the database refuses it for a reason that the model
  does not compute (a character that a \<^verbatim>\<open>text\<close> column cannot hold, an exhausted
  sequence, a lost connection).
\<close>

record env =
  OPENAI_API_KEY :: "string option"
  completion :: fetch_outcome
  delivery :: fetch_outcome
  RegExp_replace :: regexp_replace
  db_insert :: "thrown option"

definition fetch :: "fetch_outcome \<Rightarrow> request \<Rightarrow> world \<Rightarrow> fetch_outcome \<times> world" where
  "fetch outcome req w = (outcome, w\<lparr>fetched := fetched w @ [req]\<rparr>)"

definition openai_fetch :: "env \<Rightarrow> chat_completion \<Rightarrow> request" where
  "openai_fetch e openaiRequest =
     \<lparr>url = ''https://api.openai.com/v1/chat/completions'',
      http_method = ''POST'',
      headers = [(''Content-Type'', ''application/json''),
                 (''Authorization'',
                  ''Bearer '' @ (case OPENAI_API_KEY e of None \<Rightarrow> ''undefined'' | Some k \<Rightarrow> k))],
      body = JSON_stringify_chat openaiRequest\<rparr>"

definition webhook_fetch :: "prompt \<Rightarrow> js_value \<Rightarrow> request" where
  "webhook_fetch p payload_value =
     \<lparr>url = destination_webhook_url p,
      http_method = ''POST'',
      headers = [(''Content-Type'', ''application/json'')],
      body = JSON_stringify payload_value\<rparr>"

text \<open>
  The error of a query that the database refuses. Its message is the text of the driver
  (it starts with \<^verbatim>\<open>Failed query\<close>), which the model does not spell out.
\<close>

definition query_error :: thrown where
  "query_error = JsError ''Failed query''"

text \<open>
  \<^verbatim>\<open>db.select().from(promptsTable).where(eq(promptsTable.id, id))\<close>. The input schema
  takes any number as the identifier (\<^verbatim>\<open>z.number()\<close>), and the database refuses to
  compare the key column with a number outside the 32 bits of its type: the query fails.
  An identifier is an integer in the model; a fractional one fails in the same way.
\<close>

definition select_prompts :: "int \<Rightarrow> world \<Rightarrow> thrown + prompt list" where
  "select_prompts i w =
     (if - 2147483648 \<le> i \<and> i \<le> 2147483647
      then Inr (filter (\<lambda>p. sint (id_p p) = i) (promptsTable w))
      else Inl query_error)"

text \<open>
  \<^verbatim>\<open>db.insert(executionHistoryTable).values({...}).returning()\<close>: the database adds
  the key and the time stamp, and the new row comes back. The column
  \<open>openai_response\<close> is declared \<^verbatim>\<open>notNull()\<close>, so a response that is \<^verbatim>\<open>null\<close>
  (or \<^verbatim>\<open>undefined\<close>) makes the insert fail; so does a refusal by the database.
  Nothing is written then, and the handler throws the error.
\<close>

definition insert_execution_history ::
  "env \<Rightarrow> int \<Rightarrow> trigger_type \<Rightarrow> js_object option \<Rightarrow> string \<Rightarrow> js_value \<Rightarrow> nat option
     \<Rightarrow> string option \<Rightarrow> execution_status \<Rightarrow> string option \<Rightarrow> world
     \<Rightarrow> (thrown + execution_history) \<times> world" where
  "insert_execution_history e pid trig inp rendered resp wstatus wbody estatus emsg w =
     (let row = \<lparr>id_h = next_id w, prompt_id = pid, trigger_type = trig, input_data = inp,
                 rendered_prompt = rendered, openai_response = resp,
                 webhook_response_status = wstatus, webhook_response_body = wbody,
                 execution_status = estatus, error_message = emsg, created_at = clock w\<rparr>
      in if nullish resp then (Inl query_error, w)
         else (case db_insert e of
                 Some err \<Rightarrow> (Inl err, w)
               | None \<Rightarrow>
                   (Inr row, w\<lparr>executionHistoryTable := executionHistoryTable w @ [row],
                              next_id := next_id w + 1\<rparr>)))"

section \<open>\<^verbatim>\<open>executePrompt\<close>\<close>

record ExecutePromptInput =
  prompt_id_e :: int
  template_data :: "js_object option"

text \<open>
  The inner \<^verbatim>\<open>try\<close> of lines 64 to 88: the request to the destination webhook and the
  four variables it leaves (status, body, execution status, error message).
\<close>

definition executePrompt_webhook ::
  "env \<Rightarrow> request \<Rightarrow> world \<Rightarrow> (nat option \<times> string option \<times> execution_status \<times> string option) \<times> world" where
  "executePrompt_webhook e req w =
     (case fetch (delivery e) req w of
        (Rejects webhookError, w') \<Rightarrow>
          ((None, None, failed,
            Some (''Webhook error: '' @
                  (case webhookError of JsError m \<Rightarrow> m | NonError \<Rightarrow> ''Unknown error''))), w')
      | (Resolves webhookResponse, w') \<Rightarrow>
          (case body_text webhookResponse of
             Inl webhookError \<Rightarrow>
               ((Some (status webhookResponse), None, failed,
                 Some (''Webhook error: '' @
                       (case webhookError of JsError m \<Rightarrow> m | NonError \<Rightarrow> ''Unknown error''))), w')
           | Inr t \<Rightarrow>
               if \<not> ok webhookResponse
               then ((Some (status webhookResponse), Some t, failed,
                      Some (''Webhook failed with status '' @ show_nat (status webhookResponse))), w')
               else ((Some (status webhookResponse), Some t, success, None), w')))"

text \<open>
  The handler, lines 14 to 126. The result is the returned row or the thrown value (the
  outer \<^verbatim>\<open>catch\<close> logs and throws again), with the state after the call. The lookup,
  the rendering, the completion call and the insert stand outside the inner \<^verbatim>\<open>try\<close>:
  what they throw leaves the handler. The response of the completion endpoint is parsed
  and stored whatever its status is.
\<close>

definition executePrompt ::
  "env \<Rightarrow> ExecutePromptInput \<Rightarrow> world \<Rightarrow> (thrown + execution_history) \<times> world" where
  "executePrompt e input w =
     (case select_prompts (prompt_id_e input) w of
        Inl err \<Rightarrow> (Inl err, w)
      | Inr [] \<Rightarrow>
          (Inl (JsError (''Prompt with id '' @ show_int (prompt_id_e input) @ '' not found'')), w)
      | Inr (p # _) \<Rightarrow>
          if \<not> is_active p
          then (Inl (JsError (''Prompt with id '' @ show_int (prompt_id_e input)
                               @ '' is not active'')), w)
          else
            (case renderTemplate (prompt_text p) (template_data input) of
               Inl err \<Rightarrow> (Inl err, w)
             | Inr renderedPrompt \<Rightarrow>
                 (case fetch (completion e)
                         (openai_fetch e
                            \<lparr>model_r = model p,
                             messages = [(''user'', renderedPrompt)],
                             temperature_r = parseFloat (temperature p),
                             max_tokens_r = Some (max_tokens p),
                             top_p_r = parseFloat (top_p p),
                             frequency_penalty_r = parseFloat (frequency_penalty p),
                             presence_penalty_r = parseFloat (presence_penalty p)\<rparr>)
                         w of
                    (Rejects err, w1) \<Rightarrow> (Inl err, w1)
                  | (Resolves openaiResponse, w1) \<Rightarrow>
                      (case body_json openaiResponse of
                         Inl err \<Rightarrow> (Inl err, w1)
                       | Inr openaiResponseData \<Rightarrow>
                           (case executePrompt_webhook e
                                   (webhook_fetch p
                                      (JObj [(''prompt_id'', JNum (prompt_id_e input)),
                                             (''rendered_prompt'', JStr renderedPrompt),
                                             (''openai_response'', openaiResponseData),
                                             (''template_data'',
                                              (case template_data input of
                                                 None \<Rightarrow> JUndefined | Some d \<Rightarrow> JObj d))]))
                                   w1 of
                              ((webhookResponseStatus, webhookResponseBody,
                                executionStatus, errorMessage), w2) \<Rightarrow>
                                insert_execution_history e (prompt_id_e input) cron
                                  (template_data input) renderedPrompt openaiResponseData
                                  webhookResponseStatus webhookResponseBody
                                  executionStatus errorMessage w2)))))"

section \<open>\<^verbatim>\<open>webhookExecution\<close>\<close>

subsection \<open>Reading the completion response\<close>

text \<open>
  \<^verbatim>\<open>v[key]\<close> on any value. Reading a property of \<^verbatim>\<open>null\<close> or \<^verbatim>\<open>undefined\<close>
  throws a \<^verbatim>\<open>TypeError\<close> (its message is the engine's; the model writes
  \<open>TypeError\<close> for it). An array and a string have their indices and \<open>length\<close>; the
  methods they inherit are not modelled, the handler reads none: its keys are
  \<open>error\<close>, \<open>message\<close>, \<open>choices\<close>, \<open>content\<close> and the index \<open>0\<close>.
\<close>

definition array_index :: "string \<Rightarrow> nat option" where
  "array_index key =
     (if all_digits key \<and> show_nat (nat_of_digits key) = key
      then Some (nat_of_digits key) else None)"

fun js_get :: "js_value \<Rightarrow> string \<Rightarrow> thrown + js_value" where
  "js_get JUndefined key = Inl (JsError ''TypeError'')"
| "js_get JNull key = Inl (JsError ''TypeError'')"
| "js_get (JObj obj) key = Inr (object_get obj key)"
| "js_get (JArr xs) key =
     Inr (case array_index key of
            Some i \<Rightarrow> if i < length xs then xs ! i else JUndefined
          | None \<Rightarrow> if key = ''length'' then JNum (int (length xs)) else JUndefined)"
| "js_get (JStr s) key =
     Inr (case array_index key of
            Some i \<Rightarrow> if i < length s then JStr [s ! i] else JUndefined
          | None \<Rightarrow> if key = ''length'' then JNum (int (length s)) else JUndefined)"
| "js_get v key = Inr JUndefined"

text \<open>
  One more link \<^verbatim>\<open>?.[key]\<close> of an optional chain: \<^verbatim>\<open>undefined\<close> when the value
  so far is \<^verbatim>\<open>null\<close> or \<^verbatim>\<open>undefined\<close>.
\<close>

definition optional_get :: "thrown + js_value \<Rightarrow> string \<Rightarrow> thrown + js_value" where
  "optional_get r key =
     (case r of
        Inl err \<Rightarrow> Inl err
      | Inr v \<Rightarrow> if nullish v then Inr JUndefined else js_get v key)"

text \<open>\<^verbatim>\<open>openaiResponse['choices']?.[0]?.['message']?.['content']\<close>, line 66.\<close>

definition message_content :: "js_value \<Rightarrow> thrown + js_value" where
  "message_content openaiResponse =
     optional_get (optional_get (optional_get (js_get openaiResponse ''choices'') ''0'')
                     ''message'') ''content''"

text \<open>\<^verbatim>\<open>Object.keys(v)\<close>: it throws on \<^verbatim>\<open>null\<close> and \<^verbatim>\<open>undefined\<close>.\<close>

fun Object_keys :: "js_value \<Rightarrow> thrown + string list" where
  "Object_keys JUndefined = Inl (JsError ''TypeError'')"
| "Object_keys JNull = Inl (JsError ''TypeError'')"
| "Object_keys (JObj obj) = Inr (map fst obj)"
| "Object_keys (JArr xs) = Inr (map show_nat [0..<length xs])"
| "Object_keys (JStr s) = Inr (map show_nat [0..<length s])"
| "Object_keys v = Inr []"

subsection \<open>The handler\<close>

record WebhookExecutionInput =
  prompt_id_w :: int
  payload :: js_object

text \<open>The variables declared in lines 32 to 36, which the \<^verbatim>\<open>try\<close> and the \<^verbatim>\<open>catch\<close> assign.\<close>

record locals =
  openaiResponse :: js_value
  webhookResponseStatus :: "nat option"
  webhookResponseBody :: "string option"
  executionStatus :: execution_status
  errorMessage :: "string option"

text \<open>The object of lines 67 to 72 that is posted to the destination webhook.\<close>

definition webhookPayload :: "WebhookExecutionInput \<Rightarrow> js_value \<Rightarrow> js_value" where
  "webhookPayload input content =
     JObj [(''prompt_id'', JNum (prompt_id_w input)),
           (''original_payload'', JObj (payload input)),
           (''openai_response'', content),
           (''execution_id'', JNull)]"

text \<open>
  The \<^verbatim>\<open>try\<close> block, lines 38 to 93: the value thrown inside it (\<open>None\<close> when it runs
  to its end) and the variables as they are at that moment.
\<close>

definition webhook_try ::
  "env \<Rightarrow> prompt \<Rightarrow> WebhookExecutionInput \<Rightarrow> string \<Rightarrow> world \<Rightarrow> (thrown option \<times> locals) \<times> world" where
  "webhook_try e p input renderedPrompt w =
     (let v0 = \<lparr>openaiResponse = JObj [], webhookResponseStatus = None,
                webhookResponseBody = None, executionStatus = success, errorMessage = None\<rparr>;
          openaiPayload =
            \<lparr>model_r = model p,
             messages = [(''user'', renderedPrompt)],
             temperature_r = parseFloat (temperature p),
             max_tokens_r =
               (case max_tokens p of
                  None \<Rightarrow> None
                | Some n \<Rightarrow> if n \<noteq> 0 then Some (Some n) else None),
             top_p_r = parseFloat (top_p p),
             frequency_penalty_r = parseFloat (frequency_penalty p),
             presence_penalty_r = parseFloat (presence_penalty p)\<rparr>
      in case fetch (completion e) (openai_fetch e openaiPayload) w of
           (Rejects err, w1) \<Rightarrow> ((Some err, v0), w1)
         | (Resolves openaiResult, w1) \<Rightarrow>
             (case body_json openaiResult of
                Inl err \<Rightarrow> ((Some err, v0), w1)
              | Inr parsed \<Rightarrow>
                  let v1 = v0\<lparr>openaiResponse := parsed\<rparr>
                  in if \<not> ok openaiResult
                     then (case optional_get (js_get parsed ''error'') ''message'' of
                             Inl err \<Rightarrow> ((Some err, v1), w1)
                           | Inr m \<Rightarrow>
                               (case (if truthy m then js_String m else Inr ''Unknown error'') of
                                  Inl err \<Rightarrow> ((Some err, v1), w1)
                                | Inr detail \<Rightarrow>
                                    ((Some (JsError (''OpenAI API error: '' @ detail)), v1), w1)))
                     else (case message_content parsed of
                             Inl err \<Rightarrow> ((Some err, v1), w1)
                           | Inr content \<Rightarrow>
                               if truthy content
                               then (case fetch (delivery e)
                                            (webhook_fetch p (webhookPayload input content)) w1 of
                                       (Rejects err, w2) \<Rightarrow> ((Some err, v1), w2)
                                     | (Resolves webhookResult, w2) \<Rightarrow>
                                         let v2 = v1\<lparr>webhookResponseStatus :=
                                                       Some (status webhookResult)\<rparr>
                                         in (case body_text webhookResult of
                                               Inl err \<Rightarrow> ((Some err, v2), w2)
                                             | Inr t \<Rightarrow>
                                                 let v3 = v2\<lparr>webhookResponseBody := Some t\<rparr>
                                                 in if \<not> ok webhookResult
                                                    then ((None,
                                                           v3\<lparr>executionStatus := failed,
                                                              errorMessage :=
                                                                Some (''Webhook delivery failed with status ''
                                                                      @ show_nat (status webhookResult)
                                                                      @ '': '' @ t)\<rparr>), w2)
                                                    else ((None, v3), w2)))
                               else ((None,
                                      v1\<lparr>executionStatus := failed,
                                         errorMessage :=
                                           Some ''No content received from OpenAI API''\<rparr>), w1))))"

text \<open>
  The \<^verbatim>\<open>catch\<close> block, lines 94 to 102. \<^verbatim>\<open>Object.keys\<close> throws when the parsed
  response is \<^verbatim>\<open>null\<close>, and that leaves the handler.
\<close>

definition webhook_catch :: "thrown \<Rightarrow> locals \<Rightarrow> thrown + locals" where
  "webhook_catch err v =
     (let msg = (case err of JsError m \<Rightarrow> m | NonError \<Rightarrow> ''Unknown error occurred'');
          v' = v\<lparr>executionStatus := failed, errorMessage := Some msg\<rparr>
      in case Object_keys (openaiResponse v') of
           Inl err' \<Rightarrow> Inl err'
         | Inr keys \<Rightarrow>
             Inr (if length keys = 0
                  then v'\<lparr>openaiResponse := JObj [(''error'', JStr msg)]\<rparr>
                  else v'))"

text \<open>
  The handler, lines 7 to 141. The lookup and the rendering stand before the inner
  \<^verbatim>\<open>try\<close> and the insert after it, so what they throw leaves the handler.
\<close>

definition webhookExecution ::
  "env \<Rightarrow> WebhookExecutionInput \<Rightarrow> world \<Rightarrow> (thrown + execution_history) \<times> world" where
  "webhookExecution e input w =
     (case select_prompts (prompt_id_w input) w of
        Inl err \<Rightarrow> (Inl err, w)
      | Inr [] \<Rightarrow>
          (Inl (JsError (''Prompt with ID '' @ show_int (prompt_id_w input) @ '' not found'')), w)
      | Inr (p # _) \<Rightarrow>
          if \<not> is_active p
          then (Inl (JsError (''Prompt with ID '' @ show_int (prompt_id_w input)
                               @ '' is not active'')), w)
          else
            (case render_payload (RegExp_replace e) (prompt_text p) (payload input) of
               Inl err \<Rightarrow> (Inl err, w)
             | Inr renderedPrompt \<Rightarrow>
                 (case webhook_try e p input renderedPrompt w of
                    ((raised, v), w1) \<Rightarrow>
                      (case (case raised of None \<Rightarrow> Inr v | Some err \<Rightarrow> webhook_catch err v) of
                         Inl err \<Rightarrow> (Inl err, w1)
                       | Inr v' \<Rightarrow>
                           insert_execution_history e (prompt_id_w input) webhook
                             (Some (payload input)) renderedPrompt (openaiResponse v')
                             (webhookResponseStatus v') (webhookResponseBody v')
                             (executionStatus v') (errorMessage v') w1))))"

section \<open>Inputs of the test suites\<close>

text \<open>
  The prompt, the database and the mocked responses of \<^verbatim>\<open>execute_prompt.test.ts\<close>
  and \<^verbatim>\<open>webhook_execution.test.ts\<close>, for running the handlers on concrete inputs.
\<close>

definition testPrompt :: prompt where
  "testPrompt =
     \<lparr>id_p = 1, name_p = ''Test Prompt'', description_p = Some ''A test prompt'',
      prompt_text = ''Hello {{name}}, how are you?'', model = ''gpt-3.5-turbo'',
      temperature = ''0.7'', max_tokens = Some 100, top_p = ''1.0'',
      frequency_penalty = ''0.0'', presence_penalty = ''0.0'',
      destination_webhook_url = ''https://example.com/webhook'',
      cron_schedule = Some ''0 9 * * *'', is_active = True,
      created_at_p = 0, updated_at_p = 0\<rparr>"

definition test_world :: "prompt \<Rightarrow> world" where
  "test_world p =
     \<lparr>promptsTable = [p], executionHistoryTable = [], next_id = 1, clock = 0, fetched = []\<rparr>"

definition json_response :: "nat \<Rightarrow> js_value \<Rightarrow> fetch_outcome" where
  "json_response s v =
     Resolves \<lparr>status = s, body_text = Inl (JsError ''Body already used''), body_json = Inr v\<rparr>"

definition text_response :: "nat \<Rightarrow> string \<Rightarrow> fetch_outcome" where
  "text_response s t =
     Resolves \<lparr>status = s, body_text = Inr t, body_json = Inl (JsError ''Unexpected token'')\<rparr>"

definition chat_reply :: "string \<Rightarrow> js_value" where
  "chat_reply content =
     JObj [(''choices'', JArr [JObj [(''message'', JObj [(''content'', JStr content)])]])]"

definition test_env :: "fetch_outcome \<Rightarrow> fetch_outcome \<Rightarrow> env" where
  "test_env c d =
     \<lparr>OPENAI_API_KEY = Some ''sk-test'', completion = c, delivery = d,
      RegExp_replace = placeholder_regexp_replace, db_insert = None\<rparr>"

section \<open>Rejected invocations\<close>

lemma sint_int4: "- 2147483648 \<le> sint (x :: 32 word) \<and> sint x \<le> 2147483647"
  using sint_ge [of x] sint_lt [of x] by simp

lemma select_prompts_key:
  "distinct (map id_p (promptsTable w)) \<Longrightarrow> p \<in> set (promptsTable w)
     \<Longrightarrow> select_prompts (sint (id_p p)) w = Inr [p]"
proof -
  have "distinct (map id_p ps) \<Longrightarrow> p \<in> set ps
          \<Longrightarrow> filter (\<lambda>q. sint (id_p q) = sint (id_p p)) ps = [p]" for ps
  proof (induction ps)
    case Nil
    then show ?case by simp
  next
    case (Cons q qs)
    show ?case
    proof (cases "q = p")
      case True
      with Cons.prems have "id_p p \<notin> id_p ` set qs" by simp
      then have "\<forall>x \<in> set qs. sint (id_p x) \<noteq> sint (id_p p)"
        by (metis imageI signed_word_eqI)
      then have "filter (\<lambda>q. sint (id_p q) = sint (id_p p)) qs = []"
        by (simp add: filter_empty_conv)
      with True show ?thesis by simp
    next
      case False
      with Cons.prems have "p \<in> set qs" "distinct (map id_p qs)" "id_p q \<noteq> id_p p"
        by auto
      moreover from \<open>id_p q \<noteq> id_p p\<close> have "sint (id_p q) \<noteq> sint (id_p p)"
        by (metis signed_word_eqI)
      ultimately show ?thesis using Cons.IH by simp
    qed
  qed
  then show "distinct (map id_p (promptsTable w)) \<Longrightarrow> p \<in> set (promptsTable w)
     \<Longrightarrow> select_prompts (sint (id_p p)) w = Inr [p]"
    using sint_int4 [of "id_p p"] by (simp add: select_prompts_def)
qed

text \<open>
  \<^bold>\<open>C5.\<close> A prompt whose active flag is false is never executed: called with the
  identifier of such a prompt (identifiers are the primary key of the table), either entry
  point throws the inactive error and leaves the state as it was, so no history row has
  been written and no request has been sent, neither to the completion endpoint nor to
  the destination webhook.
\<close>

theorem inactive_prompt_rejected:
  assumes "distinct (map id_p (promptsTable w))"
      and "p \<in> set (promptsTable w)"
      and "\<not> is_active p"
  shows "executePrompt e \<lparr>prompt_id_e = sint (id_p p), template_data = d\<rparr> w
           = (Inl (JsError (''Prompt with id '' @ show_int (sint (id_p p)) @ '' is not active'')), w)
         \<and> webhookExecution e \<lparr>prompt_id_w = sint (id_p p), payload = pl\<rparr> w
           = (Inl (JsError (''Prompt with ID '' @ show_int (sint (id_p p)) @ '' is not active'')), w)"
  using assms by (simp add: executePrompt_def webhookExecution_def select_prompts_key)

theorem inactive_prompt_rejected_witness:
  "distinct (map id_p (promptsTable (test_world (testPrompt\<lparr>is_active := False\<rparr>))))
   \<and> testPrompt\<lparr>is_active := False\<rparr> \<in> set (promptsTable (test_world (testPrompt\<lparr>is_active := False\<rparr>)))
   \<and> \<not> is_active (testPrompt\<lparr>is_active := False\<rparr>)
   \<and> executePrompt (test_env (json_response 200 (chat_reply ''Hi'')) (text_response 200 ''OK''))
         \<lparr>prompt_id_e = 1, template_data = Some []\<rparr> (test_world (testPrompt\<lparr>is_active := False\<rparr>))
       = (Inl (JsError ''Prompt with id 1 is not active''), test_world (testPrompt\<lparr>is_active := False\<rparr>))
   \<and> webhookExecution (test_env (json_response 200 (chat_reply ''Hi'')) (text_response 200 ''OK''))
         \<lparr>prompt_id_w = 1, payload = [(''name'', JStr ''John Doe'')]\<rparr> (test_world (testPrompt\<lparr>is_active := False\<rparr>))
       = (Inl (JsError ''Prompt with ID 1 is not active''), test_world (testPrompt\<lparr>is_active := False\<rparr>))"
proof -
  let ?p = "testPrompt\<lparr>is_active := False\<rparr>"
  have h1: "distinct (map id_p (promptsTable (test_world ?p)))" by (simp add: test_world_def)
  have h2: "?p \<in> set (promptsTable (test_world ?p))" by (simp add: test_world_def)
  have h3: "\<not> is_active ?p" by simp
  have i: "sint (id_p testPrompt) = 1" by (simp add: testPrompt_def)
  have s: "show_int 1 = ''1''" by code_simp
  from inactive_prompt_rejected [OF h1 h2 h3] h1 h2 h3 show ?thesis
    by (simp add: i s)
qed




section \<open>The recorded outcome\<close>

lemma insert_row:
  assumes "insert_execution_history e pid trig inp rendered resp ws wb es em w = (Inr row, w')"
  shows "webhook_response_status row = ws \<and> webhook_response_body row = wb
         \<and> execution_status row = es \<and> error_message row = em
         \<and> rendered_prompt row = rendered \<and> openai_response row = resp
         \<and> executionHistoryTable w' = executionHistoryTable w @ [row]
         \<and> fetched w' = fetched w"
  using assms
  by (auto simp: insert_execution_history_def Let_def split: if_splits option.splits)

lemma insert_fetched:
  "insert_execution_history e pid trig inp rendered resp ws wb es em w = (res, w')
     \<Longrightarrow> fetched w' = fetched w"
  by (auto simp: insert_execution_history_def Let_def split: if_splits option.splits)

lemma executePrompt_webhook_vars:
  "executePrompt_webhook e req w = ((st, bd, es, em), w') \<Longrightarrow> (em \<noteq> None) = (es = failed)"
  by (auto simp: executePrompt_webhook_def fetch_def split: fetch_outcome.splits sum.splits if_splits)

lemma executePrompt_row:
  assumes "executePrompt e input w = (Inr row, w')"
  shows "(error_message row \<noteq> None) = (execution_status row = failed)"
  using assms
  by (auto simp: executePrompt_def
           split: list.splits if_splits prod.splits fetch_outcome.splits sum.splits
           dest!: insert_row executePrompt_webhook_vars)

lemma webhook_try_vars:
  "webhook_try e p input rp w = ((None, v), w1)
     \<Longrightarrow> (errorMessage v \<noteq> None) = (executionStatus v = failed)"
  by (auto simp: webhook_try_def fetch_def Let_def
           split: fetch_outcome.splits sum.splits if_splits prod.splits)

lemma webhook_catch_vars:
  "webhook_catch err v = Inr v' \<Longrightarrow> errorMessage v' \<noteq> None \<and> executionStatus v' = failed"
  by (auto simp: webhook_catch_def Let_def split: sum.splits if_splits)

lemma webhookExecution_row:
  assumes "webhookExecution e input w = (Inr row, w')"
  shows "\<exists>p rp raised v w1 v'.
           webhook_try e p input rp w = ((raised, v), w1)
           \<and> (case raised of None \<Rightarrow> Inr v | Some err \<Rightarrow> webhook_catch err v) = Inr v'
           \<and> execution_status row = executionStatus v'
           \<and> error_message row = errorMessage v'"
proof -
  from assms obtain p ps rp where
    r: "render_payload (RegExp_replace e) (prompt_text p) (payload input) = Inr rp"
    and run: "(case webhook_try e p input rp w of
                 ((raised, v), w1) \<Rightarrow>
                   (case (case raised of None \<Rightarrow> Inr v | Some err \<Rightarrow> webhook_catch err v) of
                      Inl err \<Rightarrow> (Inl err, w1)
                    | Inr v' \<Rightarrow>
                        insert_execution_history e (prompt_id_w input) webhook
                          (Some (payload input)) rp (openaiResponse v')
                          (webhookResponseStatus v') (webhookResponseBody v')
                          (executionStatus v') (errorMessage v') w1)) = (Inr row, w')"
    by (auto simp: webhookExecution_def split: list.splits if_splits sum.splits)
  obtain raised v w1 where t: "webhook_try e p input rp w = ((raised, v), w1)"
    by (metis prod.exhaust)
  with run obtain v' where
    c: "(case raised of None \<Rightarrow> Inr v | Some err \<Rightarrow> webhook_catch err v) = Inr v'"
    and i: "insert_execution_history e (prompt_id_w input) webhook
              (Some (payload input)) rp (openaiResponse v')
              (webhookResponseStatus v') (webhookResponseBody v')
              (executionStatus v') (errorMessage v') w1 = (Inr row, w')"
    by (auto split: sum.splits)
  from insert_row [OF i] t c show ?thesis by blast
qed

text \<open>
  \<^bold>\<open>C9.\<close> Every row that either entry point returns has an error message exactly when
  its execution status is \<open>failed\<close>.
\<close>

theorem error_message_iff_failed:
  assumes "executePrompt e input w = (Inr row, w')
           \<or> webhookExecution e winput w = (Inr row, w')"
  shows "(error_message row \<noteq> None) = (execution_status row = failed)"
  using assms
proof
  assume "executePrompt e input w = (Inr row, w')"
  then show ?thesis by (rule executePrompt_row)
next
  assume "webhookExecution e winput w = (Inr row, w')"
  from webhookExecution_row [OF this]
  obtain p rp raised v w1 v' where
    t: "webhook_try e p winput rp w = ((raised, v), w1)"
    and c: "(case raised of None \<Rightarrow> Inr v | Some err \<Rightarrow> webhook_catch err v) = Inr v'"
    and r: "execution_status row = executionStatus v'" "error_message row = errorMessage v'"
    by blast
  show ?thesis
  proof (cases raised)
    case None
    with c have "v' = v" by simp
    moreover from t [unfolded None]
    have "(errorMessage v \<noteq> None) = (executionStatus v = failed)"
      by (rule webhook_try_vars)
    ultimately show ?thesis using r by simp
  next
    case (Some err)
    with c have "webhook_catch err v = Inr v'" by simp
    from webhook_catch_vars [OF this] r show ?thesis by simp
  qed
qed

theorem error_message_iff_failed_witness:
  "(\<exists>w'. executePrompt
            (test_env (json_response 200 (chat_reply ''Hello John, I am doing well!''))
                      (text_response 200 ''Success''))
            \<lparr>prompt_id_e = 1, template_data = Some [(''name'', JStr ''John'')]\<rparr>
            (test_world testPrompt)
          = (Inr \<lparr>id_h = 1, prompt_id = 1, trigger_type = cron,
                  input_data = Some [(''name'', JStr ''John'')],
                  rendered_prompt = ''Hello John, how are you?'',
                  openai_response = chat_reply ''Hello John, I am doing well!'',
                  webhook_response_status = Some 200,
                  webhook_response_body = Some ''Success'',
                  execution_status = success, error_message = None, created_at = 0\<rparr>, w'))
   \<and> ((None :: string option) \<noteq> None) = (success = failed)"
proof -
  let ?run = "executePrompt
            (test_env (json_response 200 (chat_reply ''Hello John, I am doing well!''))
                      (text_response 200 ''Success''))
            \<lparr>prompt_id_e = 1, template_data = Some [(''name'', JStr ''John'')]\<rparr>
            (test_world testPrompt)"
  let ?row = "\<lparr>id_h = 1, prompt_id = 1, trigger_type = cron,
                  input_data = Some [(''name'', JStr ''John'')],
                  rendered_prompt = ''Hello John, how are you?'',
                  openai_response = chat_reply ''Hello John, I am doing well!'',
                  webhook_response_status = Some 200,
                  webhook_response_body = Some ''Success'',
                  execution_status = success, error_message = None, created_at = 0\<rparr>"
  have "fst ?run = Inr ?row" by code_simp
  then have run: "?run = (Inr ?row, snd ?run)" by (simp add: prod_eq_iff)
  from error_message_iff_failed [OF disjI1 [OF run]] run show ?thesis
    by (intro conjI exI [of _ "snd ?run"]) simp_all
qed

lemma show_nat_500: "show_nat 500 = ''500''"
  by code_simp

text \<open>
  \<^bold>\<open>C7.\<close> The completion call succeeds, with a body that is not \<^verbatim>\<open>null\<close>, the
  delivery call answers with status 500 and the body \<open>b\<close>, and the database takes the
  row. Then \<^verbatim>\<open>executePrompt\<close>, when rendering returned a text, writes and returns a
  row with status \<open>failed\<close>, the delivery status 500, the body \<open>b\<close> as it came, and the
  message \<^verbatim>\<open>Webhook failed with status 500\<close>. \<^verbatim>\<open>webhookExecution\<close> sends the
  delivery call when rendering returned a text and the completion response has generated
  text; then its row has the same three fields and the message
  \<^verbatim>\<open>Webhook delivery failed with status 500: \<close> followed by \<open>b\<close>.
\<close>

theorem delivery_500_recorded:
  assumes p: "select_prompts i w = Inr (p # ps)" "is_active p"
      and c: "completion e = Resolves r1" "ok r1" "body_json r1 = Inr d" "\<not> nullish d"
      and dl: "delivery e = Resolves r2" "status r2 = 500" "body_text r2 = Inr b"
      and db: "db_insert e = None"
  shows "(renderTemplate (prompt_text p) td = Inr filled
            \<longrightarrow> (\<exists>row w'. executePrompt e \<lparr>prompt_id_e = i, template_data = td\<rparr> w = (Inr row, w')
                   \<and> executionHistoryTable w' = executionHistoryTable w @ [row]
                   \<and> execution_status row = failed
                   \<and> webhook_response_status row = Some 500
                   \<and> webhook_response_body row = Some b
                   \<and> error_message row = Some ''Webhook failed with status 500''))
         \<and> (render_payload (RegExp_replace e) (prompt_text p) pl = Inr rendered
              \<and> message_content d = Inr content \<and> truthy content
            \<longrightarrow> (\<exists>row w'. webhookExecution e \<lparr>prompt_id_w = i, payload = pl\<rparr> w = (Inr row, w')
                   \<and> executionHistoryTable w' = executionHistoryTable w @ [row]
                   \<and> execution_status row = failed
                   \<and> webhook_response_status row = Some 500
                   \<and> webhook_response_body row = Some b
                   \<and> error_message row
                       = Some (''Webhook delivery failed with status 500: '' @ b)))"
proof (intro conjI impI)
  assume a: "renderTemplate (prompt_text p) td = Inr filled"
  from dl have nok: "\<not> ok r2" by (simp add: ok_def)
  show "\<exists>row w'. executePrompt e \<lparr>prompt_id_e = i, template_data = td\<rparr> w = (Inr row, w')
            \<and> executionHistoryTable w' = executionHistoryTable w @ [row]
            \<and> execution_status row = failed
            \<and> webhook_response_status row = Some 500
            \<and> webhook_response_body row = Some b
            \<and> error_message row = Some ''Webhook failed with status 500''"
    using p c dl db nok a
    by (simp add: executePrompt_def executePrompt_webhook_def fetch_def
                  insert_execution_history_def Let_def show_nat_500)
next
  assume a: "render_payload (RegExp_replace e) (prompt_text p) pl = Inr rendered
              \<and> message_content d = Inr content \<and> truthy content"
  from dl have nok: "\<not> ok r2" by (simp add: ok_def)
  have "\<exists>w1. webhook_try e p \<lparr>prompt_id_w = i, payload = pl\<rparr> rendered w
           = ((None,
               \<lparr>openaiResponse = d, webhookResponseStatus = Some 500,
                webhookResponseBody = Some b, executionStatus = failed,
                errorMessage = Some (''Webhook delivery failed with status 500: '' @ b)\<rparr>), w1)
          \<and> executionHistoryTable w1 = executionHistoryTable w"
    using a c dl nok
    by (simp add: webhook_try_def fetch_def Let_def show_nat_500)
  then obtain w1 where t: "webhook_try e p \<lparr>prompt_id_w = i, payload = pl\<rparr> rendered w
           = ((None,
               \<lparr>openaiResponse = d, webhookResponseStatus = Some 500,
                webhookResponseBody = Some b, executionStatus = failed,
                errorMessage = Some (''Webhook delivery failed with status 500: '' @ b)\<rparr>), w1)"
    and h: "executionHistoryTable w1 = executionHistoryTable w"
    by blast
  show "\<exists>row w'. webhookExecution e \<lparr>prompt_id_w = i, payload = pl\<rparr> w = (Inr row, w')
                   \<and> executionHistoryTable w' = executionHistoryTable w @ [row]
                   \<and> execution_status row = failed
                   \<and> webhook_response_status row = Some 500
                   \<and> webhook_response_body row = Some b
                   \<and> error_message row
                       = Some (''Webhook delivery failed with status 500: '' @ b)"
    using p a c db h
    by (simp add: webhookExecution_def t insert_execution_history_def Let_def)
qed

theorem delivery_500_recorded_witness:
  "select_prompts 1 (test_world testPrompt) = Inr [testPrompt]
   \<and> is_active testPrompt
   \<and> ok \<lparr>status = 200, body_text = Inl (JsError ''Body already used''),
          body_json = Inr (chat_reply ''Response'')\<rparr>
   \<and> \<not> nullish (chat_reply ''Response'')
   \<and> db_insert (test_env (json_response 200 (chat_reply ''Response''))
                          (text_response 500 ''Internal Server Error'')) = None
   \<and> renderTemplate (prompt_text testPrompt) (Some [(''name'', JStr ''Bob'')])
       = Inr ''Hello Bob, how are you?''
   \<and> render_payload placeholder_regexp_replace (prompt_text testPrompt) [(''name'', JStr ''Bob'')]
       = Inr ''Hello Bob, how are you?''
   \<and> message_content (chat_reply ''Response'') = Inr (JStr ''Response'')
   \<and> truthy (JStr ''Response'')
   \<and> (\<exists>row w'. executePrompt
                    (test_env (json_response 200 (chat_reply ''Response''))
                              (text_response 500 ''Internal Server Error''))
                    \<lparr>prompt_id_e = 1, template_data = Some [(''name'', JStr ''Bob'')]\<rparr>
                    (test_world testPrompt) = (Inr row, w')
          \<and> executionHistoryTable w' = [row]
          \<and> execution_status row = failed
          \<and> webhook_response_status row = Some 500
          \<and> webhook_response_body row = Some ''Internal Server Error''
          \<and> error_message row = Some ''Webhook failed with status 500'')
   \<and> (\<exists>row w'. webhookExecution
                    (test_env (json_response 200 (chat_reply ''Response''))
                              (text_response 500 ''Internal Server Error''))
                    \<lparr>prompt_id_w = 1, payload = [(''name'', JStr ''Bob'')]\<rparr>
                    (test_world testPrompt) = (Inr row, w')
          \<and> executionHistoryTable w' = [row]
          \<and> execution_status row = failed
          \<and> webhook_response_status row = Some 500
          \<and> webhook_response_body row = Some ''Internal Server Error''
          \<and> error_message row
              = Some ''Webhook delivery failed with status 500: Internal Server Error'')"
proof -
  let ?e = "test_env (json_response 200 (chat_reply ''Response''))
                     (text_response 500 ''Internal Server Error'')"
  let ?r1 = "\<lparr>status = 200, body_text = Inl (JsError ''Body already used''),
              body_json = Inr (chat_reply ''Response'')\<rparr>"
  let ?r2 = "\<lparr>status = 500, body_text = Inr ''Internal Server Error'',
              body_json = Inl (JsError ''Unexpected token'')\<rparr>"
  have h1: "select_prompts 1 (test_world testPrompt) = Inr (testPrompt # [])"
    by (simp add: select_prompts_def test_world_def testPrompt_def)
  have h2: "is_active testPrompt" by (simp add: testPrompt_def)
  have h3: "completion ?e = Resolves ?r1" by (simp add: test_env_def json_response_def)
  have h4: "ok ?r1" by (simp add: ok_def)
  have h5: "body_json ?r1 = Inr (chat_reply ''Response'')" by simp
  have h5': "\<not> nullish (chat_reply ''Response'')" by (simp add: nullish_def chat_reply_def)
  have h6: "delivery ?e = Resolves ?r2" by (simp add: test_env_def text_response_def)
  have h7: "status ?r2 = 500" by simp
  have h8: "body_text ?r2 = Inr ''Internal Server Error''" by simp
  have h9: "db_insert ?e = None" by (simp add: test_env_def)
  have re: "renderTemplate (prompt_text testPrompt) (Some [(''name'', JStr ''Bob'')])
           = Inr ''Hello Bob, how are you?''"
    by code_simp
  have r: "render_payload (RegExp_replace ?e) (prompt_text testPrompt) [(''name'', JStr ''Bob'')]
           = Inr ''Hello Bob, how are you?''"
    by code_simp
  have r': "render_payload placeholder_regexp_replace (prompt_text testPrompt)
              [(''name'', JStr ''Bob'')] = Inr ''Hello Bob, how are you?''"
    by code_simp
  have m: "message_content (chat_reply ''Response'') = Inr (JStr ''Response'')"
    by code_simp
  have t: "truthy (JStr ''Response'')" by simp
  note inst = delivery_500_recorded [OF h1 h2 h3 h4 h5 h5' h6 h7 h8 h9,
      where td = "Some [(''name'', JStr ''Bob'')]" and pl = "[(''name'', JStr ''Bob'')]"
        and filled = "''Hello Bob, how are you?''"
        and rendered = "''Hello Bob, how are you?''" and content = "JStr ''Response''"]
  from inst re have a: "\<exists>row w'. executePrompt ?e
                    \<lparr>prompt_id_e = 1, template_data = Some [(''name'', JStr ''Bob'')]\<rparr>
                    (test_world testPrompt) = (Inr row, w')
          \<and> executionHistoryTable w' = [row]
          \<and> execution_status row = failed
          \<and> webhook_response_status row = Some 500
          \<and> webhook_response_body row = Some ''Internal Server Error''
          \<and> error_message row = Some ''Webhook failed with status 500''"
    by (simp add: test_world_def)
  from inst r m t have b: "\<exists>row w'. webhookExecution ?e
                    \<lparr>prompt_id_w = 1, payload = [(''name'', JStr ''Bob'')]\<rparr>
                    (test_world testPrompt) = (Inr row, w')
          \<and> executionHistoryTable w' = [row]
          \<and> execution_status row = failed
          \<and> webhook_response_status row = Some 500
          \<and> webhook_response_body row = Some ''Internal Server Error''
          \<and> error_message row
              = Some ''Webhook delivery failed with status 500: Internal Server Error''"
    by (simp add: test_world_def)
  from h1 h2 h4 h5' h9 re r' m t a b show ?thesis by blast
qed

section \<open>The payload of the webhook-invoked delivery\<close>

lemma webhook_try_fetched:
  assumes "webhook_try e p input rendered w = ((raised, v), w1)"
  shows "(\<exists>c. url c = ''https://api.openai.com/v1/chat/completions''
              \<and> fetched w1 = fetched w @ [c])
         \<or> (\<exists>c r d content.
              url c = ''https://api.openai.com/v1/chat/completions''
              \<and> completion e = Resolves r \<and> ok r \<and> body_json r = Inr d
              \<and> message_content d = Inr content \<and> truthy content
              \<and> fetched w1 = fetched w @ [c, webhook_fetch p (webhookPayload input content)])"
  using assms
  by (auto simp: webhook_try_def fetch_def Let_def openai_fetch_def
           split: fetch_outcome.splits sum.splits if_splits prod.splits)

text \<open>
  \<^bold>\<open>C10.\<close> The requests \<^verbatim>\<open>webhookExecution\<close> sends are none, or the completion
  request alone, or the completion request and then one request to the destination
  webhook of the prompt. The payload of that request has the four properties
  \<open>prompt_id\<close> (the identifier of the invocation), \<open>original_payload\<close> (the payload
  of the caller), \<open>openai_response\<close> (the text extracted from the completion response)
  and \<open>execution_id\<close>, which is \<^verbatim>\<open>null\<close>: the row is written after the request, and
  its key is never put into the payload.
\<close>

theorem webhook_payload_execution_id_null:
  assumes "webhookExecution e input w = (res, w')"
  shows "fetched w' = fetched w
         \<or> (\<exists>c. url c = ''https://api.openai.com/v1/chat/completions''
                \<and> fetched w' = fetched w @ [c])
         \<or> (\<exists>c p ps r d content.
                url c = ''https://api.openai.com/v1/chat/completions''
                \<and> select_prompts (prompt_id_w input) w = Inr (p # ps)
                \<and> completion e = Resolves r \<and> body_json r = Inr d
                \<and> message_content d = Inr content \<and> truthy content
                \<and> fetched w' = fetched w @
                     [c,
                      \<lparr>url = destination_webhook_url p, http_method = ''POST'',
                       headers = [(''Content-Type'', ''application/json'')],
                       body = JSON_stringify
                                (JObj [(''prompt_id'', JNum (prompt_id_w input)),
                                       (''original_payload'', JObj (payload input)),
                                       (''openai_response'', content),
                                       (''execution_id'', JNull)])\<rparr>])"
proof (cases "select_prompts (prompt_id_w input) w")
  case (Inl err)
  with assms show ?thesis by (simp add: webhookExecution_def)
next
  case (Inr rows)
  show ?thesis
  proof (cases rows)
    case Nil
    with assms Inr show ?thesis by (simp add: webhookExecution_def)
  next
    case (Cons p ps)
    note sel = Inr [unfolded Cons]
    show ?thesis
    proof (cases "is_active p")
      case False
      with assms sel show ?thesis by (simp add: webhookExecution_def)
    next
      case True
      show ?thesis
      proof (cases "render_payload (RegExp_replace e) (prompt_text p) (payload input)")
        case (Inl err)
        with assms sel True show ?thesis by (simp add: webhookExecution_def)
      next
        case (Inr rendered)
        obtain raised v w1 where t: "webhook_try e p input rendered w = ((raised, v), w1)"
          by (metis prod.exhaust)
        from assms sel True Inr t have "fetched w' = fetched w1"
          by (auto simp: webhookExecution_def split: sum.splits option.splits
                   dest: insert_fetched)
        with webhook_try_fetched [OF t] sel show ?thesis
          by (auto simp: webhook_fetch_def webhookPayload_def)
      qed
    qed
  qed
qed

theorem webhook_payload_execution_id_null_witness:
  "\<exists>res w'.
      webhookExecution
        (test_env (json_response 200 (chat_reply ''Generated response'')) (text_response 200 ''OK''))
        \<lparr>prompt_id_w = 1, payload = [(''name'', JStr ''John Doe''), (''order_id'', JStr ''12345'')]\<rparr>
        (test_world testPrompt) = (res, w')
      \<and> length (fetched w') = 2
      \<and> url (fetched w' ! 1) = ''https://example.com/webhook''
      \<and> body (fetched w' ! 1)
          = JSON_stringify
              (JObj [(''prompt_id'', JNum 1),
                     (''original_payload'',
                      JObj [(''name'', JStr ''John Doe''), (''order_id'', JStr ''12345'')]),
                     (''openai_response'', JStr ''Generated response''),
                     (''execution_id'', JNull)])"
proof -
  let ?e = "test_env (json_response 200 (chat_reply ''Generated response''))
                     (text_response 200 ''OK'')"
  let ?input = "\<lparr>prompt_id_w = 1,
                  payload = [(''name'', JStr ''John Doe''), (''order_id'', JStr ''12345'')]\<rparr>"
  let ?run = "webhookExecution ?e ?input (test_world testPrompt)"
  have run: "?run = (fst ?run, snd ?run)" by simp
  have len: "length (fetched (snd ?run)) = 2" by code_simp
  have start: "fetched (test_world testPrompt) = []" by (simp add: test_world_def)
  have sel: "select_prompts (prompt_id_w ?input) (test_world testPrompt) = Inr [testPrompt]"
    by (simp add: select_prompts_def test_world_def testPrompt_def)
  have dest: "destination_webhook_url testPrompt = ''https://example.com/webhook''"
    by (simp add: testPrompt_def)
  have comp: "completion ?e
              = Resolves \<lparr>status = 200, body_text = Inl (JsError ''Body already used''),
                          body_json = Inr (chat_reply ''Generated response'')\<rparr>"
    by (simp add: test_env_def json_response_def)
  have content: "message_content (chat_reply ''Generated response'')
                 = Inr (JStr ''Generated response'')"
    by code_simp
  from webhook_payload_execution_id_null [OF run] len start
  obtain c p ps r d content where
    "select_prompts (prompt_id_w ?input) (test_world testPrompt) = Inr (p # ps)"
    "completion ?e = Resolves r" "body_json r = Inr d" "message_content d = Inr content"
    "fetched (snd ?run) =
       [c, \<lparr>url = destination_webhook_url p, http_method = ''POST'',
             headers = [(''Content-Type'', ''application/json'')],
             body = JSON_stringify
                      (JObj [(''prompt_id'', JNum (prompt_id_w ?input)),
                             (''original_payload'', JObj (payload ?input)),
                             (''openai_response'', content),
                             (''execution_id'', JNull)])\<rparr>]"
    by auto
  with sel comp content dest
  have "url (fetched (snd ?run) ! 1) = ''https://example.com/webhook''
        \<and> body (fetched (snd ?run) ! 1)
          = JSON_stringify
              (JObj [(''prompt_id'', JNum 1),
                     (''original_payload'',
                      JObj [(''name'', JStr ''John Doe''), (''order_id'', JStr ''12345'')]),
                     (''openai_response'', JStr ''Generated response''),
                     (''execution_id'', JNull)])"
    by auto
  with run len show ?thesis by blast
qed

section \<open>Further properties of the two handlers\<close>

lemma test_select: "select_prompts 1 (test_world testPrompt) = Inr (testPrompt # [])"
  by (simp add: select_prompts_def test_world_def testPrompt_def)

lemma test_active: "is_active testPrompt"
  by (simp add: testPrompt_def)

lemma test_db_insert: "db_insert (test_env c d) = None"
  by (simp add: test_env_def)

text \<open>
  After a successful completion call and a delivery call that answers 200 the row is
  written with status \<open>success\<close> and without an error message, and its rendered prompt
  is what the renderer of the entry point made of the template: \<^verbatim>\<open>renderTemplate\<close>
  for \<^verbatim>\<open>executePrompt\<close>, the loop over the payload for \<^verbatim>\<open>webhookExecution\<close>.
\<close>

theorem delivery_200_success:
  assumes p: "select_prompts i w = Inr (p # ps)" "is_active p"
      and c: "completion e = Resolves r1" "ok r1" "body_json r1 = Inr d" "\<not> nullish d"
      and dl: "delivery e = Resolves r2" "status r2 = 200" "body_text r2 = Inr b"
      and db: "db_insert e = None"
  shows "(renderTemplate (prompt_text p) td = Inr filled
            \<longrightarrow> (\<exists>row w'. executePrompt e \<lparr>prompt_id_e = i, template_data = td\<rparr> w = (Inr row, w')
                   \<and> executionHistoryTable w' = executionHistoryTable w @ [row]
                   \<and> execution_status row = success
                   \<and> error_message row = None
                   \<and> rendered_prompt row = filled))
         \<and> (render_payload (RegExp_replace e) (prompt_text p) pl = Inr rendered
              \<and> message_content d = Inr content \<and> truthy content
            \<longrightarrow> (\<exists>row w'. webhookExecution e \<lparr>prompt_id_w = i, payload = pl\<rparr> w = (Inr row, w')
                   \<and> executionHistoryTable w' = executionHistoryTable w @ [row]
                   \<and> execution_status row = success
                   \<and> error_message row = None
                   \<and> rendered_prompt row = rendered))"
proof (intro conjI impI)
  assume a: "renderTemplate (prompt_text p) td = Inr filled"
  from dl have okd: "ok r2" by (simp add: ok_def)
  show "\<exists>row w'. executePrompt e \<lparr>prompt_id_e = i, template_data = td\<rparr> w = (Inr row, w')
            \<and> executionHistoryTable w' = executionHistoryTable w @ [row]
            \<and> execution_status row = success
            \<and> error_message row = None
            \<and> rendered_prompt row = filled"
    using p c dl db okd a
    by (simp add: executePrompt_def executePrompt_webhook_def fetch_def
                  insert_execution_history_def Let_def)
next
  assume a: "render_payload (RegExp_replace e) (prompt_text p) pl = Inr rendered
              \<and> message_content d = Inr content \<and> truthy content"
  from dl have okd: "ok r2" by (simp add: ok_def)
  have "\<exists>w1. webhook_try e p \<lparr>prompt_id_w = i, payload = pl\<rparr> rendered w
           = ((None,
               \<lparr>openaiResponse = d, webhookResponseStatus = Some 200,
                webhookResponseBody = Some b, executionStatus = success,
                errorMessage = None\<rparr>), w1)
           \<and> executionHistoryTable w1 = executionHistoryTable w"
    using a c dl okd
    by (simp add: webhook_try_def fetch_def Let_def)
  then obtain w1 where t: "webhook_try e p \<lparr>prompt_id_w = i, payload = pl\<rparr> rendered w
           = ((None,
               \<lparr>openaiResponse = d, webhookResponseStatus = Some 200,
                webhookResponseBody = Some b, executionStatus = success,
                errorMessage = None\<rparr>), w1)"
    and h: "executionHistoryTable w1 = executionHistoryTable w"
    by blast
  show "\<exists>row w'. webhookExecution e \<lparr>prompt_id_w = i, payload = pl\<rparr> w = (Inr row, w')
                   \<and> executionHistoryTable w' = executionHistoryTable w @ [row]
                   \<and> execution_status row = success
                   \<and> error_message row = None
                   \<and> rendered_prompt row = rendered"
    using p a c db h
    by (simp add: webhookExecution_def t insert_execution_history_def Let_def)
qed

theorem delivery_200_success_witness:
  "ok \<lparr>status = 200, body_text = Inl (JsError ''Body already used''),
        body_json = Inr (chat_reply ''Hello John, I am doing well!'')\<rparr>
   \<and> (\<exists>row w'. executePrompt
                    (test_env (json_response 200 (chat_reply ''Hello John, I am doing well!''))
                              (text_response 200 ''Success''))
                    \<lparr>prompt_id_e = 1, template_data = Some [(''name'', JStr ''John'')]\<rparr>
                    (test_world testPrompt) = (Inr row, w')
          \<and> executionHistoryTable w' = [row]
          \<and> execution_status row = success
          \<and> error_message row = None
          \<and> rendered_prompt row = ''Hello John, how are you?'')
   \<and> (\<exists>row w'. webhookExecution
                    (test_env (json_response 200 (chat_reply ''Hello John, I am doing well!''))
                              (text_response 200 ''Success''))
                    \<lparr>prompt_id_w = 1, payload = [(''name'', JStr ''John'')]\<rparr>
                    (test_world testPrompt) = (Inr row, w')
          \<and> executionHistoryTable w' = [row]
          \<and> execution_status row = success
          \<and> error_message row = None
          \<and> rendered_prompt row = ''Hello John, how are you?'')"
proof -
  let ?e = "test_env (json_response 200 (chat_reply ''Hello John, I am doing well!''))
                     (text_response 200 ''Success'')"
  let ?r1 = "\<lparr>status = 200, body_text = Inl (JsError ''Body already used''),
              body_json = Inr (chat_reply ''Hello John, I am doing well!'')\<rparr>"
  let ?r2 = "\<lparr>status = 200, body_text = Inr ''Success'',
              body_json = Inl (JsError ''Unexpected token'')\<rparr>"
  have h3: "completion ?e = Resolves ?r1" by (simp add: test_env_def json_response_def)
  have h4: "ok ?r1" by (simp add: ok_def)
  have h5: "body_json ?r1 = Inr (chat_reply ''Hello John, I am doing well!'')" by simp
  have h5': "\<not> nullish (chat_reply ''Hello John, I am doing well!'')"
    by (simp add: nullish_def chat_reply_def)
  have h6: "delivery ?e = Resolves ?r2" by (simp add: test_env_def text_response_def)
  have h7: "status ?r2 = 200" by simp
  have h8: "body_text ?r2 = Inr ''Success''" by simp
  have r: "render_payload (RegExp_replace ?e) (prompt_text testPrompt) [(''name'', JStr ''John'')]
           = Inr ''Hello John, how are you?''"
    by code_simp
  have r': "renderTemplate (prompt_text testPrompt) (Some [(''name'', JStr ''John'')])
           = Inr ''Hello John, how are you?''"
    by code_simp
  have m: "message_content (chat_reply ''Hello John, I am doing well!'')
           = Inr (JStr ''Hello John, I am doing well!'')"
    by code_simp
  have t: "truthy (JStr ''Hello John, I am doing well!'')" by simp
  note inst = delivery_200_success [OF test_select test_active h3 h4 h5 h5' h6 h7 h8 test_db_insert,
      where td = "Some [(''name'', JStr ''John'')]" and pl = "[(''name'', JStr ''John'')]"
        and filled = "''Hello John, how are you?''"
        and rendered = "''Hello John, how are you?''"
        and content = "JStr ''Hello John, I am doing well!''"]
  from inst r' have a: "\<exists>row w'. executePrompt ?e
                    \<lparr>prompt_id_e = 1, template_data = Some [(''name'', JStr ''John'')]\<rparr>
                    (test_world testPrompt) = (Inr row, w')
          \<and> executionHistoryTable w' = [row]
          \<and> execution_status row = success
          \<and> error_message row = None
          \<and> rendered_prompt row = ''Hello John, how are you?''"
    by (simp add: test_world_def)
  from inst r m t have b: "\<exists>row w'. webhookExecution ?e
                    \<lparr>prompt_id_w = 1, payload = [(''name'', JStr ''John'')]\<rparr>
                    (test_world testPrompt) = (Inr row, w')
          \<and> executionHistoryTable w' = [row]
          \<and> execution_status row = success
          \<and> error_message row = None
          \<and> rendered_prompt row = ''Hello John, how are you?''"
    by (simp add: test_world_def)
  from h4 a b show ?thesis by blast
qed

lemma js_get_defined:
  "\<not> nullish v \<Longrightarrow> \<exists>x. js_get v key = Inr x"
  by (cases v) (simp_all add: nullish_def)

lemma optional_get_defined:
  "\<exists>x. optional_get (Inr v) key = Inr x"
  using js_get_defined [of v key] by (auto simp: optional_get_def)

lemma Object_keys_defined:
  "\<not> nullish v \<Longrightarrow> \<exists>ks. Object_keys v = Inr ks"
  by (cases v) (simp_all add: nullish_def)

text \<open>
  \<^verbatim>\<open>webhookExecution\<close> on a completion response whose status is not from 200 to 299
  (its body parsed to anything but \<^verbatim>\<open>null\<close>): one request has been sent, and the
  row is written with status \<open>failed\<close>, no delivery status, no delivery body and an
  error message.
\<close>

theorem webhookExecution_completion_not_ok:
  assumes p: "select_prompts (prompt_id_w input) w = Inr (p # ps)" "is_active p"
      and r: "render_payload (RegExp_replace e) (prompt_text p) (payload input) = Inr rendered"
      and c: "completion e = Resolves r1" "\<not> ok r1" "body_json r1 = Inr d"
      and d: "\<not> nullish d"
      and db: "db_insert e = None"
  shows "\<exists>row w' c msg. webhookExecution e input w = (Inr row, w')
           \<and> executionHistoryTable w' = executionHistoryTable w @ [row]
           \<and> fetched w' = fetched w @ [c]
           \<and> execution_status row = failed
           \<and> webhook_response_status row = None
           \<and> webhook_response_body row = None
           \<and> error_message row = Some msg"
proof -
  from d obtain x where x: "js_get d ''error'' = Inr x"
    using js_get_defined by blast
  obtain m where m: "optional_get (Inr x) ''message'' = Inr m"
    using optional_get_defined by blast
  from d obtain ks where ks: "Object_keys d = Inr ks"
    using Object_keys_defined by blast
  have "\<exists>w1 c err. webhook_try e p input rendered w
           = ((Some err,
               \<lparr>openaiResponse = d, webhookResponseStatus = None,
                webhookResponseBody = None, executionStatus = success,
                errorMessage = None\<rparr>), w1)
          \<and> executionHistoryTable w1 = executionHistoryTable w
          \<and> fetched w1 = fetched w @ [c]"
    using c x m by (auto simp: webhook_try_def fetch_def Let_def split: sum.splits)
  then obtain w1 c err where t: "webhook_try e p input rendered w
           = ((Some err,
               \<lparr>openaiResponse = d, webhookResponseStatus = None,
                webhookResponseBody = None, executionStatus = success,
                errorMessage = None\<rparr>), w1)"
    and h: "executionHistoryTable w1 = executionHistoryTable w"
    and f: "fetched w1 = fetched w @ [c]"
    by blast
  show ?thesis
    using p r h f ks d db
    by (simp add: webhookExecution_def t webhook_catch_def insert_execution_history_def
                  Let_def nullish_def)
qed

theorem webhookExecution_completion_not_ok_witness:
  "\<not> ok \<lparr>status = 401, body_text = Inl (JsError ''Body already used''),
          body_json = Inr (JObj [(''error'', JObj [(''message'', JStr ''Invalid API key'')])])\<rparr>
   \<and> (\<exists>row w' c msg.
         webhookExecution
           (test_env (json_response 401
                        (JObj [(''error'', JObj [(''message'', JStr ''Invalid API key'')])]))
                     (text_response 200 ''OK''))
           \<lparr>prompt_id_w = 1, payload = [(''name'', JStr ''John Doe'')]\<rparr>
           (test_world testPrompt) = (Inr row, w')
         \<and> executionHistoryTable w' = [row]
         \<and> fetched w' = [c]
         \<and> execution_status row = failed
         \<and> webhook_response_status row = None
         \<and> webhook_response_body row = None
         \<and> error_message row = Some msg)"
proof -
  let ?d = "JObj [(''error'', JObj [(''message'', JStr ''Invalid API key'')])]"
  let ?e = "test_env (json_response 401 ?d) (text_response 200 ''OK'')"
  let ?input = "\<lparr>prompt_id_w = 1, payload = [(''name'', JStr ''John Doe'')]\<rparr>"
  let ?r1 = "\<lparr>status = 401, body_text = Inl (JsError ''Body already used''),
              body_json = Inr ?d\<rparr>"
  have p: "select_prompts (prompt_id_w ?input) (test_world testPrompt) = Inr (testPrompt # [])"
    by (simp add: test_select)
  have r: "render_payload (RegExp_replace ?e) (prompt_text testPrompt) (payload ?input)
           = Inr ''Hello John Doe, how are you?''"
    by code_simp
  have c: "completion ?e = Resolves ?r1" by (simp add: test_env_def json_response_def)
  have n: "\<not> ok ?r1" by (simp add: ok_def)
  have b: "body_json ?r1 = Inr ?d" by simp
  have d: "\<not> nullish ?d" by (simp add: nullish_def)
  from webhookExecution_completion_not_ok [OF p test_active r c n b d test_db_insert] n
  show ?thesis by (simp add: test_world_def)
qed

text \<open>
  \<^verbatim>\<open>webhookExecution\<close> when the completion call fails in transport (\<^verbatim>\<open>fetch\<close>
  rejects, or the body is no JSON): the thrown value is caught, and the row is written
  with status \<open>failed\<close>, the message of the error, and the object \<^verbatim>\<open>{error: message}\<close>
  as the stored response.
\<close>

theorem webhookExecution_transport_failure:
  assumes p: "select_prompts (prompt_id_w input) w = Inr (p # ps)" "is_active p"
      and r: "render_payload (RegExp_replace e) (prompt_text p) (payload input) = Inr rendered"
      and c: "completion e = Rejects err
              \<or> (\<exists>r1. completion e = Resolves r1 \<and> body_json r1 = Inl err)"
      and db: "db_insert e = None"
  shows "\<exists>row w' c. webhookExecution e input w = (Inr row, w')
           \<and> executionHistoryTable w' = executionHistoryTable w @ [row]
           \<and> fetched w' = fetched w @ [c]
           \<and> execution_status row = failed
           \<and> webhook_response_status row = None
           \<and> webhook_response_body row = None
           \<and> error_message row
               = Some (case err of JsError m \<Rightarrow> m | NonError \<Rightarrow> ''Unknown error occurred'')
           \<and> openai_response row
               = JObj [(''error'',
                        JStr (case err of JsError m \<Rightarrow> m | NonError \<Rightarrow> ''Unknown error occurred''))]"
proof -
  have "\<exists>w1 c. webhook_try e p input rendered w
           = ((Some err,
               \<lparr>openaiResponse = JObj [], webhookResponseStatus = None,
                webhookResponseBody = None, executionStatus = success,
                errorMessage = None\<rparr>), w1)
          \<and> executionHistoryTable w1 = executionHistoryTable w
          \<and> fetched w1 = fetched w @ [c]"
    using c by (auto simp: webhook_try_def fetch_def Let_def)
  then obtain w1 c where t: "webhook_try e p input rendered w
           = ((Some err,
               \<lparr>openaiResponse = JObj [], webhookResponseStatus = None,
                webhookResponseBody = None, executionStatus = success,
                errorMessage = None\<rparr>), w1)"
    and h: "executionHistoryTable w1 = executionHistoryTable w"
    and f: "fetched w1 = fetched w @ [c]"
    by blast
  show ?thesis
    using p r h f db
    by (simp add: webhookExecution_def t webhook_catch_def insert_execution_history_def
                  Let_def nullish_def)
qed

theorem webhookExecution_transport_failure_witness:
  "\<exists>row w' c.
      webhookExecution (test_env (Rejects (JsError ''fetch failed'')) (text_response 200 ''OK''))
        \<lparr>prompt_id_w = 1, payload = [(''name'', JStr ''John Doe'')]\<rparr>
        (test_world testPrompt) = (Inr row, w')
      \<and> executionHistoryTable w' = [row]
      \<and> fetched w' = [c]
      \<and> execution_status row = failed
      \<and> webhook_response_status row = None
      \<and> webhook_response_body row = None
      \<and> error_message row = Some ''fetch failed''
      \<and> openai_response row = JObj [(''error'', JStr ''fetch failed'')]"
proof -
  let ?e = "test_env (Rejects (JsError ''fetch failed'')) (text_response 200 ''OK'')"
  let ?input = "\<lparr>prompt_id_w = 1, payload = [(''name'', JStr ''John Doe'')]\<rparr>"
  have p: "select_prompts (prompt_id_w ?input) (test_world testPrompt) = Inr (testPrompt # [])"
    by (simp add: test_select)
  have r: "render_payload (RegExp_replace ?e) (prompt_text testPrompt) (payload ?input)
           = Inr ''Hello John Doe, how are you?''"
    by code_simp
  have c: "completion ?e = Rejects (JsError ''fetch failed'')
           \<or> (\<exists>r1. completion ?e = Resolves r1 \<and> body_json r1 = Inl (JsError ''fetch failed''))"
    by (simp add: test_env_def)
  from webhookExecution_transport_failure [OF p test_active r c test_db_insert]
  show ?thesis by (simp add: test_world_def)
qed

text \<open>
  A completion response whose body is the JSON text \<^verbatim>\<open>null\<close> makes the \<^verbatim>\<open>catch\<close>
  block of \<^verbatim>\<open>webhookExecution\<close> throw in turn (\<^verbatim>\<open>Object.keys(null)\<close>): the handler
  throws and writes no row.
\<close>

theorem webhookExecution_null_body:
  "fst (webhookExecution (test_env (json_response 401 JNull) (text_response 200 ''OK''))
          \<lparr>prompt_id_w = 1, payload = [(''name'', JStr ''John Doe'')]\<rparr> (test_world testPrompt))
     = Inl (JsError ''TypeError'')
   \<and> executionHistoryTable
        (snd (webhookExecution (test_env (json_response 401 JNull) (text_response 200 ''OK''))
          \<lparr>prompt_id_w = 1, payload = [(''name'', JStr ''John Doe'')]\<rparr> (test_world testPrompt)))
     = []"
  by code_simp

text \<open>
  \<^verbatim>\<open>executePrompt\<close> on the same body, with status 200: both requests are sent, the
  insert fails on the column that must not be \<^verbatim>\<open>null\<close>, and the handler throws
  without a row.
\<close>

theorem executePrompt_null_body:
  "executePrompt (test_env (json_response 200 JNull) (text_response 500 ''Internal Server Error''))
     \<lparr>prompt_id_e = 1, template_data = Some [(''name'', JStr ''Bob'')]\<rparr> (test_world testPrompt)
   = (Inl query_error,
      snd (executePrompt (test_env (json_response 200 JNull) (text_response 500 ''Internal Server Error''))
             \<lparr>prompt_id_e = 1, template_data = Some [(''name'', JStr ''Bob'')]\<rparr> (test_world testPrompt)))
   \<and> executionHistoryTable
        (snd (executePrompt (test_env (json_response 200 JNull) (text_response 500 ''Internal Server Error''))
             \<lparr>prompt_id_e = 1, template_data = Some [(''name'', JStr ''Bob'')]\<rparr> (test_world testPrompt)))
     = []
   \<and> length (fetched
        (snd (executePrompt (test_env (json_response 200 JNull) (text_response 500 ''Internal Server Error''))
             \<lparr>prompt_id_e = 1, template_data = Some [(''name'', JStr ''Bob'')]\<rparr> (test_world testPrompt))))
     = 2"
  by code_simp

text \<open>
  A value with an own property \<open>toString\<close> cannot be converted to a string. It makes
  both renderers throw, before any request is sent and any row written.
\<close>

theorem rendering_throws:
  "executePrompt (test_env (json_response 200 (chat_reply ''Hi'')) (text_response 200 ''OK''))
     \<lparr>prompt_id_e = 1, template_data = Some [(''name'', JObj [(''toString'', JNull)])]\<rparr>
     (test_world testPrompt)
   = (Inl (JsError ''TypeError''), test_world testPrompt)
   \<and> webhookExecution (test_env (json_response 200 (chat_reply ''Hi'')) (text_response 200 ''OK''))
     \<lparr>prompt_id_w = 1, payload = [(''name'', JObj [(''toString'', JNull)])]\<rparr>
     (test_world testPrompt)
   = (Inl (JsError ''TypeError''), test_world testPrompt)"
  by code_simp

section \<open>The renderer of \<^verbatim>\<open>executePrompt\<close>, occurrence by occurrence\<close>

lemma match_placeholder_parts:
  assumes "match_placeholder s = Some (m, key, rest)"
  shows "s = m @ rest" and "m = ''{{'' @ key @ ''}}''" and "key \<noteq> []"
    and "list_all word_char key"
proof -
  let ?t = "drop 2 s"
  from assms have a: "take 2 s = ''{{''" and k: "key = takeWhile word_char ?t"
    and b: "take 2 (dropWhile word_char ?t) = ''}}''"
    and r: "rest = drop 2 (dropWhile word_char ?t)"
    and m: "m = ''{{'' @ key @ ''}}''" and ne: "key \<noteq> []"
    by (auto simp: match_placeholder_def Let_def split: if_splits)
  have "s = take 2 s @ ?t" by simp
  also have "?t = takeWhile word_char ?t @ dropWhile word_char ?t" by simp
  also have "dropWhile word_char ?t
             = take 2 (dropWhile word_char ?t) @ drop 2 (dropWhile word_char ?t)" by simp
  finally show "s = m @ rest" using a k b r m by simp
  show "m = ''{{'' @ key @ ''}}''" by (rule m)
  show "key \<noteq> []" by (rule ne)
  from k show "list_all word_char key"
    by (simp add: list_all_iff) (metis set_takeWhileD)
qed

lemma replace_placeholders_tokens:
  "replace_placeholders f s = map_sum id concat (collect (map (render_token f) (tokenize s)))"
proof (induction s rule: tokenize.induct)
  case 1
  show ?case by simp
next
  case (2 c s)
  show ?case
  proof (cases "match_placeholder (c # s)")
    case None
    with 2 show ?thesis by (simp split: sum.splits)
  next
    case (Some t)
    then obtain m key rest where t: "match_placeholder (c # s) = Some (m, key, rest)"
      by (cases t) auto
    from match_placeholder_parts(2) [OF t] have m: "m = ''{{'' @ key @ ''}}''" .
    from 2(2) [OF t refl refl] t m show ?thesis by (simp split: sum.splits)
  qed
qed

lemma replace_placeholders_identity:
  "replace_placeholders (\<lambda>match key. Inr match) s = Inr s"
proof (induction s rule: tokenize.induct)
  case 1
  show ?case by simp
next
  case (2 c s)
  show ?case
  proof (cases "match_placeholder (c # s)")
    case None
    with 2 show ?thesis by simp
  next
    case (Some t)
    then obtain m key rest where t: "match_placeholder (c # s) = Some (m, key, rest)"
      by (cases t) auto
    have "replace_placeholders (\<lambda>match key. Inr match) (c # s)
          = map_sum id ((@) m) (replace_placeholders (\<lambda>match key. Inr match) rest)"
      using t by simp
    also have "\<dots> = Inr (m @ rest)"
      using 2(2) [OF t refl refl] by simp
    also have "m @ rest = c # s"
      using match_placeholder_parts(1) [OF t] by simp
    finally show ?thesis .
  qed
qed

lemma tokenize_source:
  "map_sum id concat (collect (map (render_token (\<lambda>match key. Inr match)) (tokenize s))) = Inr s"
  using replace_placeholders_tokens [of "\<lambda>match key. Inr match" s]
  by (simp add: replace_placeholders_identity)

text \<open>
  The tokens of a template spell the template. \<^verbatim>\<open>renderTemplate\<close> goes through the
  tokens in their order, each character as it is and each placeholder replaced by
  \<^verbatim>\<open>String(data[key])\<close> when \<^verbatim>\<open>data[key]\<close> (own or inherited) is not
  \<^verbatim>\<open>undefined\<close>, and left as it is otherwise; the first conversion that throws ends
  it. An absent mapping renders as the empty one.
\<close>

theorem renderTemplate_tokens:
  "map_sum id concat (collect (map (render_token (\<lambda>match key. Inr match)) (tokenize template)))
     = Inr template
   \<and> renderTemplate template (Some d)
       = map_sum id concat
           (collect (map (render_token
                            (\<lambda>match key. if object_get d key \<noteq> JUndefined
                                          then js_String (object_get d key) else Inr match))
                         (tokenize template)))
   \<and> renderTemplate template None
       = map_sum id concat
           (collect (map (render_token
                            (\<lambda>match key. if object_get [] key \<noteq> JUndefined
                                          then js_String (object_get [] key) else Inr match))
                         (tokenize template)))"
  by (simp add: tokenize_source renderTemplate_def replace_placeholders_tokens)

text \<open>
  When every placeholder of the template reads \<^verbatim>\<open>undefined\<close> in the mapping, the
  output is the template.
\<close>

theorem renderTemplate_unresolved:
  assumes "list_all (\<lambda>t. case t of Text c \<Rightarrow> True
                          | Placeholder key \<Rightarrow> object_get d key = JUndefined)
             (tokenize template)"
  shows "renderTemplate template (Some d) = Inr template"
proof -
  let ?f = "\<lambda>match key. if object_get d key \<noteq> JUndefined
                         then js_String (object_get d key) else Inr match"
  have same: "map (render_token ?f) ts = map (render_token (\<lambda>match key. Inr match)) ts"
    if "list_all (\<lambda>t. case t of Text c \<Rightarrow> True
                          | Placeholder key \<Rightarrow> object_get d key = JUndefined) ts" for ts
    using that by (induction ts) (auto split: token.splits)
  have "renderTemplate template (Some d)
        = map_sum id concat (collect (map (render_token ?f) (tokenize template)))"
    by (simp add: renderTemplate_def replace_placeholders_tokens)
  also have "\<dots> = map_sum id concat
                     (collect (map (render_token (\<lambda>match key. Inr match)) (tokenize template)))"
    by (simp only: same [OF assms])
  also have "\<dots> = Inr template" by (rule tokenize_source)
  finally show ?thesis .
qed

theorem renderTemplate_unresolved_witness:
  "list_all (\<lambda>t. case t of Text c \<Rightarrow> True
                  | Placeholder key \<Rightarrow> object_get [(''user'', JStr ''Ann'')] key = JUndefined)
     (tokenize ''Hello {{name}}, how are you?'')
   \<and> renderTemplate ''Hello {{name}}, how are you?'' (Some [(''user'', JStr ''Ann'')])
       = Inr ''Hello {{name}}, how are you?''"
proof -
  have h: "list_all (\<lambda>t. case t of Text c \<Rightarrow> True
                  | Placeholder key \<Rightarrow> object_get [(''user'', JStr ''Ann'')] key = JUndefined)
     (tokenize ''Hello {{name}}, how are you?'')"
    by code_simp
  from renderTemplate_unresolved [OF h] h show ?thesis by simp
qed

section \<open>Runs on which a handler leaves its specification\<close>

lemma returned_row: "fst run = Inr row \<Longrightarrow> \<exists>w'. run = (Inr row, w')"
  by (cases run) simp

text \<open>
  \<^bold>\<open>C1.\<close> \<^verbatim>\<open>executePrompt\<close> never looks at the status of the completion response.
  With the mocked responses of the test \<^verbatim>\<open>should handle OpenAI API failure\<close> (status
  401 from the completion endpoint) and a destination webhook that answers 200, it sends
  the delivery request and writes a row with status \<open>success\<close>, delivery status 200 and
  no error message. \<^verbatim>\<open>webhookExecution\<close> tests \<^verbatim>\<open>openaiResult.ok\<close> and records a
  failure on the same responses.
\<close>

theorem executePrompt_completion_401:
  "\<exists>w'. executePrompt
          (test_env (json_response 401 (JObj [(''error'', JObj [(''message'', JStr ''Invalid API key'')])]))
                    (text_response 200 ''OK''))
          \<lparr>prompt_id_e = 1, template_data = Some [(''name'', JStr ''John'')]\<rparr>
          (test_world testPrompt)
        = (Inr \<lparr>id_h = 1, prompt_id = 1, trigger_type = cron,
                input_data = Some [(''name'', JStr ''John'')],
                rendered_prompt = ''Hello John, how are you?'',
                openai_response = JObj [(''error'', JObj [(''message'', JStr ''Invalid API key'')])],
                webhook_response_status = Some 200,
                webhook_response_body = Some ''OK'',
                execution_status = success, error_message = None, created_at = 0\<rparr>, w')"
  by (rule returned_row) code_simp

text \<open>
  \<^bold>\<open>C2.\<close> In \<^verbatim>\<open>executePrompt\<close> the completion call and the parsing of its body
  stand outside the inner \<^verbatim>\<open>try\<close>. When \<^verbatim>\<open>fetch\<close> rejects, the handler throws
  what \<^verbatim>\<open>fetch\<close> threw, having sent the one request and written no row; when the body
  is no JSON, it throws what \<^verbatim>\<open>json()\<close> threw, and the history table stays empty.
\<close>

theorem executePrompt_transport_failure:
  "executePrompt (test_env (Rejects (JsError ''fetch failed'')) (text_response 200 ''OK''))
     \<lparr>prompt_id_e = 1, template_data = Some [(''name'', JStr ''John'')]\<rparr> (test_world testPrompt)
   = (Inl (JsError ''fetch failed''),
      (test_world testPrompt)
        \<lparr>fetched := [openai_fetch (test_env (Rejects (JsError ''fetch failed'')) (text_response 200 ''OK''))
                        \<lparr>model_r = ''gpt-3.5-turbo'',
                         messages = [(''user'', ''Hello John, how are you?'')],
                         temperature_r = parseFloat ''0.7'', max_tokens_r = Some (Some 100),
                         top_p_r = parseFloat ''1.0'', frequency_penalty_r = parseFloat ''0.0'',
                         presence_penalty_r = parseFloat ''0.0''\<rparr>]\<rparr>)
   \<and> fst (executePrompt (test_env (text_response 502 ''<html>Bad Gateway</html>'') (text_response 200 ''OK''))
           \<lparr>prompt_id_e = 1, template_data = Some [(''name'', JStr ''John'')]\<rparr> (test_world testPrompt))
     = Inl (JsError ''Unexpected token'')
   \<and> executionHistoryTable
        (snd (executePrompt (test_env (text_response 502 ''<html>Bad Gateway</html>'') (text_response 200 ''OK''))
           \<lparr>prompt_id_e = 1, template_data = Some [(''name'', JStr ''John'')]\<rparr> (test_world testPrompt)))
     = []"
  by code_simp

text \<open>
  \<^bold>\<open>C3.\<close> \<^verbatim>\<open>renderTemplate\<close> tests \<^verbatim>\<open>data[key] !== undefined\<close>, which also
  finds what the object inherits. The template \<^verbatim>\<open>{{__proto__}}\<close> names no key of the
  mapping, and yet it is replaced, with an absent mapping, with the empty one and with
  one that has other keys: the output is not the input.
\<close>

theorem renderTemplate_inherited_property:
  "renderTemplate ''{{__proto__}}'' None = Inr ''[object Object]''
   \<and> renderTemplate ''{{__proto__}}'' (Some []) = Inr ''[object Object]''
   \<and> renderTemplate ''{{__proto__}}'' (Some [(''name'', JStr ''John'')]) = Inr ''[object Object]''"
  by code_simp

text \<open>
  \<^bold>\<open>C4.\<close> The two renderers give different texts for one template and one mapping.
  \<^verbatim>\<open>renderTemplate\<close> makes a single pass; the loop of \<^verbatim>\<open>webhookExecution\<close> rewrites
  the text once per entry, so a placeholder that the value of an earlier entry brought
  in is replaced by a later entry.
\<close>

theorem renderers_differ:
  "renderTemplate ''Summarize: {{content}}''
     (Some [(''content'', JStr ''see {{author}}''), (''author'', JStr ''Ann'')])
   = Inr ''Summarize: see {{author}}''
   \<and> render_payload placeholder_regexp_replace ''Summarize: {{content}}''
       [(''content'', JStr ''see {{author}}''), (''author'', JStr ''Ann'')]
     = Inr ''Summarize: see Ann''"
  by code_simp

text \<open>
  \<^bold>\<open>C8.\<close> \<^verbatim>\<open>webhookExecution\<close> passes \<^verbatim>\<open>String(value)\<close> to \<^verbatim>\<open>replace\<close> as a
  replacement string, where \<^verbatim>\<open>$&\<close> stands for the matched text. With a successful
  completion call and a delivery call that answers 200, the row has status \<open>success\<close>
  and no error message, but its rendered prompt still holds the placeholder
  \<^verbatim>\<open>{{name}}\<close>, although \<open>name\<close> is a key of the payload, with the value \<^verbatim>\<open>$&\<close>.
  \<^verbatim>\<open>renderTemplate\<close> puts the value in.
\<close>

theorem webhookExecution_dollar_pattern:
  "(\<exists>w'. webhookExecution
          (test_env (json_response 200 (chat_reply ''Generated response'')) (text_response 200 ''OK''))
          \<lparr>prompt_id_w = 1, payload = [(''name'', JStr ''$&'')]\<rparr>
          (test_world testPrompt)
        = (Inr \<lparr>id_h = 1, prompt_id = 1, trigger_type = webhook,
                input_data = Some [(''name'', JStr ''$&'')],
                rendered_prompt = ''Hello {{name}}, how are you?'',
                openai_response = chat_reply ''Generated response'',
                webhook_response_status = Some 200,
                webhook_response_body = Some ''OK'',
                execution_status = success, error_message = None, created_at = 0\<rparr>, w'))
   \<and> renderTemplate ''Hello {{name}}, how are you?'' (Some [(''name'', JStr ''$&'')])
       = Inr ''Hello $&, how are you?''"
proof
  show "\<exists>w'. webhookExecution
          (test_env (json_response 200 (chat_reply ''Generated response'')) (text_response 200 ''OK''))
          \<lparr>prompt_id_w = 1, payload = [(''name'', JStr ''$&'')]\<rparr>
          (test_world testPrompt)
        = (Inr \<lparr>id_h = 1, prompt_id = 1, trigger_type = webhook,
                input_data = Some [(''name'', JStr ''$&'')],
                rendered_prompt = ''Hello {{name}}, how are you?'',
                openai_response = chat_reply ''Generated response'',
                webhook_response_status = Some 200,
                webhook_response_body = Some ''OK'',
                execution_status = success, error_message = None, created_at = 0\<rparr>, w')"
    by (rule returned_row) code_simp
  show "renderTemplate ''Hello {{name}}, how are you?'' (Some [(''name'', JStr ''$&'')])
       = Inr ''Hello $&, how are you?''"
    by code_simp
qed

end
